theory Spec2Isabelle
  imports Complex_Main
begin

section \<open>JavaScript values\<close>

text \<open>
  The market-priors front end works on JSON data.  A JavaScript number is modelled as a
  real number or one of the three non-finite values.  Arithmetic on finite numbers is
  exact real arithmetic, except where the canonical grid is built: there the rounding of
  IEEE doubles decides how often a loop runs, and it is modelled.  Elsewhere the
  program's results differ from the exact ones in their last digits only.  A string is
  represented by the two facts \<open>toNumber\<close> inspects: whether it trims to the empty
  string, and what \<open>Number(value)\<close> yields for it.  The fields read here hold
  numbers, strings or null; booleans, arrays and objects are left out.
\<close>

datatype jsnum = Finite real | NaN | PosInfinity | NegInfinity

datatype jsval = Null | Undefined | Numeric jsnum | Str bool jsnum

text \<open>\<open>Number.isFinite(n) ? n : null\<close> on the result of \<open>Number(value)\<close>.\<close>

fun finiteOrNull :: "jsnum \<Rightarrow> real option" where
  "finiteOrNull (Finite x) = Some x"
| "finiteOrNull NaN = None"
| "finiteOrNull PosInfinity = None"
| "finiteOrNull NegInfinity = None"

text \<open>
  \<open>toNumber\<close> (ui_utils.js): null and undefined give null, a blank string gives null,
  everything else goes through \<open>Number\<close> and is kept only when finite.  The result
  is a finite number or null, modelled as \<open>real option\<close>.
\<close>

fun toNumber :: "jsval \<Rightarrow> real option" where
  "toNumber Null = None"
| "toNumber Undefined = None"
| "toNumber (Str blank n) = (if blank then None else finiteOrNull n)"
| "toNumber (Numeric n) = finiteOrNull n"

text \<open>\<open>Number.isFinite\<close> on a value that is a finite number or null.\<close>

definition isFinite :: "real option \<Rightarrow> bool" where
  "isFinite v = (v \<noteq> None)"

text \<open>The nullish coalescing operator \<open>v ?? d\<close>.\<close>

fun coalesce :: "'a option \<Rightarrow> 'a \<Rightarrow> 'a" where
  "coalesce None d = d"
| "coalesce (Some x) d = x"

section \<open>Probability ranges\<close>

text \<open>
  Two pages share most of the code modelled here: the detail page (papers.js), which
  shows the posterior, the canonical bins and the history, and the overview page
  (priors.js), which shows the combined distribution.  Where both define a function of
  the same name with different bodies, the overview page's version carries the prefix
  \<open>overview_\<close>.
\<close>

text \<open>A bracket as it arrives in a snapshot: \<open>{lower, upper, prob}\<close>.\<close>

record raw_range =
  raw_lower :: jsval
  raw_upper :: jsval
  raw_prob :: jsval

text \<open>Objects carrying \<open>lower\<close> and \<open>upper\<close>; every later record extends this one.\<close>

record bounds =
  lower :: "real option"
  upper :: "real option"

record range = bounds +
  prob :: "real option"

definition normalizeProb :: "jsval \<Rightarrow> real option" where
  "normalizeProb v =
     (case toNumber v of
        None \<Rightarrow> None
      | Some n \<Rightarrow> if n > 1.5 then Some (n / 100) else Some n)"

definition cleanRange :: "raw_range \<Rightarrow> range" where
  "cleanRange r =
     \<lparr>lower = toNumber (raw_lower r), upper = toNumber (raw_upper r),
      prob = normalizeProb (raw_prob r)\<rparr>"

definition normalizeDistribution :: "raw_range list \<Rightarrow> range list" where
  "normalizeDistribution ranges =
     (let cleaned = filter (\<lambda>r. prob r \<noteq> None) (map cleanRange ranges);
          total = foldl (\<lambda>acc r. acc + coalesce (prob r) 0) 0 cleaned
      in if total > 0
         then map (\<lambda>r. r\<lparr>prob := Some (coalesce (prob r) 0 / total)\<rparr>) cleaned
         else cleaned)"

text \<open>
  The un-normalized probability of a bracket as a plain number: the value of
  \<open>normalizeProb\<close> for a finite input, 0 for the brackets that are dropped.
\<close>

definition rawProbValue :: "raw_range \<Rightarrow> real" where
  "rawProbValue r =
     (case toNumber (raw_prob r) of
        Some n \<Rightarrow> if n > 1.5 then n / 100 else n
      | None \<Rightarrow> 0)"

section \<open>Sorting with a comparator\<close>

text \<open>
  \<open>Array.prototype.sort(cmp)\<close> is stable; the comparator's result puts \<open>a\<close> after
  \<open>b\<close> only when it is positive, and a \<open>NaN\<close> result counts as 0.  For a comparator
  that is a total preorder the sorted array is uniquely determined, and stable insertion
  computes it.
\<close>

fun jsSub :: "jsnum \<Rightarrow> jsnum \<Rightarrow> jsnum" where
  "jsSub (Finite a) (Finite b) = Finite (a - b)"
| "jsSub NaN _ = NaN"
| "jsSub _ NaN = NaN"
| "jsSub PosInfinity PosInfinity = NaN"
| "jsSub NegInfinity NegInfinity = NaN"
| "jsSub PosInfinity _ = PosInfinity"
| "jsSub NegInfinity _ = NegInfinity"
| "jsSub (Finite a) PosInfinity = NegInfinity"
| "jsSub (Finite a) NegInfinity = PosInfinity"

fun isPositive :: "jsnum \<Rightarrow> bool" where
  "isPositive (Finite x) = (x > 0)"
| "isPositive PosInfinity = True"
| "isPositive NegInfinity = False"
| "isPositive NaN = False"

fun jsInsert :: "('a \<Rightarrow> 'a \<Rightarrow> jsnum) \<Rightarrow> 'a \<Rightarrow> 'a list \<Rightarrow> 'a list" where
  "jsInsert cmp x [] = [x]"
| "jsInsert cmp x (y # ys) =
     (if isPositive (cmp x y) then y # jsInsert cmp x ys else x # y # ys)"

definition jsSort :: "('a \<Rightarrow> 'a \<Rightarrow> jsnum) \<Rightarrow> 'a list \<Rightarrow> 'a list" where
  "jsSort cmp xs = foldr (jsInsert cmp) xs []"

text \<open>\<open>rangeKey\<close>: the string \<open>lower|upper\<close> with an empty part for null.  Distinct
  finite numbers print differently, so the key is the pair of bounds itself.\<close>

definition rangeKey :: "'a bounds_scheme \<Rightarrow> real option \<times> real option" where
  "rangeKey r = (lower r, upper r)"

definition sortRanges :: "'a bounds_scheme \<Rightarrow> 'a bounds_scheme \<Rightarrow> jsnum" where
  "sortRanges a b =
     (let al = (case lower a of Some x \<Rightarrow> Finite x | None \<Rightarrow> NegInfinity);
          bl = (case lower b of Some x \<Rightarrow> Finite x | None \<Rightarrow> NegInfinity)
      in if al \<noteq> bl then jsSub al bl
         else let au = (case upper a of Some x \<Rightarrow> Finite x | None \<Rightarrow> PosInfinity);
                  bu = (case upper b of Some x \<Rightarrow> Finite x | None \<Rightarrow> PosInfinity)
              in jsSub au bu)"

text \<open>A JavaScript \<open>Map\<close> keeps its keys in order of first insertion.\<close>

fun mapSet :: "'k \<Rightarrow> 'v \<Rightarrow> ('k \<times> 'v) list \<Rightarrow> ('k \<times> 'v) list" where
  "mapSet k v [] = [(k, v)]"
| "mapSet k v ((k', v') # m) = (if k = k' then (k, v) # m else (k', v') # mapSet k v m)"

definition mapGet :: "'k \<Rightarrow> ('k \<times> 'v) list \<Rightarrow> 'v option" where
  "mapGet k m = map_of m k"

section \<open>Snapshots\<close>

text \<open>
  The \<open>sources\<close> of a snapshot hold the brackets of the two venues the front end
  names, \<open>kalshi\<close> and \<open>polymarket\<close>; a venue without brackets has the empty list
  (\<open>sources?.kalshi || []\<close>).  The bracket lists stored under any other key are
  \<open>others\<close>; only \<open>Object.values(sources)\<close> in \<open>getBinsFromSources\<close> reads them.
  In a snapshot, \<open>kalshi_volume\<close> and
  \<open>polymarket_volume\<close> stand for \<open>source_meta.kalshi.volume\<close> and
  \<open>source_meta.polymarket.volume\<close>, and \<open>volume_weights\<close> for
  \<open>posterior.model.volume_weights\<close>.  The bounds of a precomputed posterior bin are
  numbers or null.
\<close>

record sources =
  kalshi :: "raw_range list"
  polymarket :: "raw_range list"
  others :: "raw_range list list"

record weights =
  weight_kalshi :: real
  weight_polymarket :: real

record posterior_bin = bounds +
  pb_midpoint :: jsval
  pb_mean :: jsval
  pb_p10 :: jsval
  pb_p90 :: jsval

record expected =
  exp_mean :: jsval
  exp_p10 :: jsval
  exp_p90 :: jsval

record posterior =
  post_bins :: "posterior_bin list"
  post_expected :: "expected option"
  volume_weights :: "weights option"

text \<open>
  The value of \<open>as_of\<close>: falsy (missing, null, empty), or a value that
  \<open>new Date(value)\<close> turns into a date with the given time value (\<open>NaN\<close> for an
  invalid date).
\<close>

datatype date_input = Falsy | DateValue jsnum

record snapshot =
  as_of :: date_input
  snap_sources :: sources
  kalshi_volume :: jsval
  polymarket_volume :: jsval
  snap_posterior :: "posterior option"

record meta =
  format :: string

text \<open>\<open>parseDate(value)?.getTime()\<close>: the time value of the parsed date, or nothing.\<close>

fun parseDate :: "date_input \<Rightarrow> jsnum option" where
  "parseDate Falsy = None"
| "parseDate (DateValue NaN) = None"
| "parseDate (DateValue t) = Some t"

section \<open>Rounding to doubles\<close>

text \<open>
  A finite double is a real number of the form \<open>k * 2^(e - 52)\<close> with
  \<open>\<bar>k\<bar> < 2^53\<close>.  \<open>roundDouble\<close> rounds a real number to the nearest such number, ties
  to the even \<open>k\<close>, as IEEE 754 prescribes for every arithmetic operation.  \<open>binade\<close>
  finds the exponent \<open>e\<close> with \<open>2^e \<le> v < 2^(e + 1)\<close> by halving or doubling; its first
  argument bounds the search and exceeds every exponent a double can have.  Overflow to
  infinity and the coarser grid of subnormal numbers are left out.
\<close>

definition pow2 :: "int \<Rightarrow> real" where
  "pow2 e = (if 0 \<le> e then 2 ^ nat e else 1 / 2 ^ nat (- e))"

fun binade :: "nat \<Rightarrow> real \<Rightarrow> int" where
  "binade 0 v = 0"
| "binade (Suc n) v =
     (if 2 \<le> v then binade n (v / 2) + 1 else if v < 1 then binade n (2 * v) - 1 else 0)"

definition roundHalfEven :: "real \<Rightarrow> int" where
  "roundHalfEven r =
     (let f = \<lfloor>r\<rfloor>; d = r - of_int f
      in if d < 1 / 2 then f else if 1 / 2 < d then f + 1 else if even f then f else f + 1)"

definition roundDouble :: "real \<Rightarrow> real" where
  "roundDouble v =
     (if v = 0 then 0
      else let e = binade 1100 \<bar>v\<bar>; u = pow2 (e - 52)
           in of_int (roundHalfEven (v / u)) * u)"

text \<open>The four operations of JavaScript on finite doubles.\<close>

definition jsPlus :: "real \<Rightarrow> real \<Rightarrow> real" where
  "jsPlus a b = roundDouble (a + b)"

definition jsMinus :: "real \<Rightarrow> real \<Rightarrow> real" where
  "jsMinus a b = roundDouble (a - b)"

definition jsTimes :: "real \<Rightarrow> real \<Rightarrow> real" where
  "jsTimes a b = roundDouble (a * b)"

definition jsDivide :: "real \<Rightarrow> real \<Rightarrow> real" where
  "jsDivide a b = roundDouble (a / b)"

section \<open>Canonical bins\<close>

text \<open>
  \<open>getBinsFromSources\<close> collects the distinct brackets of all venues in a \<open>Map\<close>
  keyed by \<open>rangeKey\<close> and sorts them (the venues are visited in the order of the keys
  of \<open>sources\<close>; the map holds one entry per pair of bounds and the entries are sorted
  afterwards, so the order of the visit does not show in the result, and the two named
  venues are put first); \<open>buildStandardBins\<close> lays the grid of step
  \<open>stepForMeta\<close> over them; \<open>aggregateRangesToStandard\<close> spreads one venue's
  normalized probabilities over that grid.  Values that went through \<open>toNumber\<close> once
  are finite numbers or null, so a second \<open>toNumber\<close> on them changes nothing and is
  not written out.
\<close>

definition getBinsFromSources :: "sources \<Rightarrow> bounds list" where
  "getBinsFromSources srcs =
     (let ins = (\<lambda>m r. mapSet (rangeKey r) \<lparr>lower = lower r, upper = upper r\<rparr> m);
          visit = (\<lambda>m ranges. foldl ins m (normalizeDistribution ranges));
          m1 = foldl visit [] (kalshi srcs # polymarket srcs # others srcs)
      in jsSort sortRanges (map snd m1))"

text \<open>The literal \<open>0.1\<close> denotes the double nearest to one tenth.\<close>

definition stepForMeta :: "meta \<Rightarrow> real" where
  "stepForMeta m =
     (if format m = ''jobs'' then 25000
      else if format m = ''percent'' then roundDouble 0.1 else 1)"

text \<open>
  The loop \<open>for (let v = start; v < end; v += step) out.push({lower: v, upper: v + step})\<close>.
  Each \<open>v + step\<close> is rounded, so the loop need not arrive at \<open>end\<close> exactly, and
  where \<open>v + step\<close> rounds back to \<open>v\<close> it runs forever: the result is \<open>None\<close> then.
\<close>

partial_function (option) gridLoop :: "meta \<Rightarrow> real \<Rightarrow> real \<Rightarrow> bounds list option" where
  "gridLoop m v e =
     (if v < e
      then Option.bind (gridLoop m (jsPlus v (stepForMeta m)) e)
             (\<lambda>rest. Some (\<lparr>lower = Some v, upper = Some (jsPlus v (stepForMeta m))\<rparr> # rest))
      else Some [])"

declare gridLoop.simps [code]

text \<open>\<open>Math.min(...xs)\<close> and \<open>Math.max(...xs)\<close>; they are called on non-empty arrays
  of finite numbers only.\<close>

definition mathMin :: "real list \<Rightarrow> real" where
  "mathMin xs = fold min (tl xs) (hd xs)"

definition mathMax :: "real list \<Rightarrow> real" where
  "mathMax xs = fold max (tl xs) (hd xs)"

definition finiteValues :: "real option list \<Rightarrow> real list" where
  "finiteValues vs = map (\<lambda>v. coalesce v 0) (filter isFinite vs)"

definition buildStandardBins :: "'a bounds_scheme list \<Rightarrow> meta \<Rightarrow> bounds list option" where
  "buildStandardBins bins m =
     (let step = stepForMeta m;
          lowers = finiteValues (map lower bins);
          uppers = finiteValues (map upper bins)
      in if lowers = [] \<and> uppers = [] then Some []
         else let minVal = (if lowers \<noteq> [] then mathMin lowers
                            else jsMinus (mathMin uppers) step);
                  maxVal = (if uppers \<noteq> [] then mathMax uppers
                            else jsPlus (mathMax lowers) step);
                  start = jsTimes (of_int \<lfloor>jsDivide minVal step\<rfloor>) step;
                  end = jsTimes (of_int \<lceil>jsDivide maxVal step\<rceil>) step
              in Option.bind (gridLoop m start end)
                   (\<lambda>interior. Some ([\<lparr>lower = None, upper = Some start\<rparr>] @ interior
                                       @ [\<lparr>lower = Some end, upper = None\<rparr>])))"

record interval =
  ilower :: real
  iupper :: real

definition expandRange :: "'a bounds_scheme \<Rightarrow> real \<Rightarrow> real \<Rightarrow> real \<Rightarrow> interval" where
  "expandRange r minBound maxBound step =
     \<lparr>ilower = (case lower r of Some x \<Rightarrow> x | None \<Rightarrow> minBound - step),
      iupper = (case upper r of Some x \<Rightarrow> x | None \<Rightarrow> maxBound + step)\<rparr>"

text \<open>\<open>arr.find(pred)\<close>: the first element satisfying the predicate, if any.\<close>

definition arrayFind :: "('a \<Rightarrow> bool) \<Rightarrow> 'a list \<Rightarrow> 'a option" where
  "arrayFind = List.find"

definition minBoundOf :: "bounds list \<Rightarrow> real" where
  "minBoundOf standardBins =
     (case arrayFind (\<lambda>b. isFinite (lower b)) standardBins of
        Some b \<Rightarrow> coalesce (lower b) 0
      | None \<Rightarrow> 0)"

definition maxBoundOf :: "bounds list \<Rightarrow> real \<Rightarrow> real \<Rightarrow> real" where
  "maxBoundOf standardBins minBound step =
     (case arrayFind (\<lambda>b. isFinite (upper b)) (rev standardBins) of
        Some b \<Rightarrow> coalesce (upper b) (minBound + step)
      | None \<Rightarrow> minBound + step)"

text \<open>One pass of \<open>standardBins.forEach((bin, idx) => ...)\<close> for a source interval
  \<open>src\<close> of width \<open>width\<close> carrying probability \<open>p\<close>.\<close>

definition overlapOf :: "interval \<Rightarrow> interval \<Rightarrow> real" where
  "overlapOf src dst = max 0 (min (iupper src) (iupper dst) - max (ilower src) (ilower dst))"

definition addToBin ::
  "real \<Rightarrow> real \<Rightarrow> real \<Rightarrow> real \<Rightarrow> interval \<Rightarrow> real list \<Rightarrow> nat \<times> bounds \<Rightarrow> real list" where
  "addToBin minBound maxBound step p src totals ib =
     (let idx = fst ib;
          dst = expandRange (snd ib) minBound maxBound step;
          overlap = overlapOf src dst;
          width = iupper src - ilower src
      in if overlap > 0 then totals[idx := totals ! idx + p * (overlap / width)] else totals)"

definition addRange ::
  "bounds list \<Rightarrow> real \<Rightarrow> real \<Rightarrow> real \<Rightarrow> real list \<Rightarrow> range \<Rightarrow> real list" where
  "addRange standardBins minBound maxBound step totals r =
     (case prob r of
        None \<Rightarrow> totals
      | Some p \<Rightarrow>
          if p \<le> 0 then totals
          else let src = expandRange r minBound maxBound step;
                   width = iupper src - ilower src
               in if \<not> (width > 0) then totals
                  else foldl (addToBin minBound maxBound step p src) totals
                         (enumerate 0 standardBins))"

definition aggregateRangesToStandard :: "raw_range list \<Rightarrow> bounds list \<Rightarrow> meta \<Rightarrow> real list" where
  "aggregateRangesToStandard ranges standardBins m =
     (let step = stepForMeta m;
          clean = normalizeDistribution ranges
      in if standardBins = [] \<or> clean = [] then []
         else let minBound = minBoundOf standardBins;
                  maxBound = maxBoundOf standardBins minBound step;
                  totals = map (\<lambda>_. 0) standardBins;
                  totals' = foldl (addRange standardBins minBound maxBound step) totals clean;
                  totalProb = foldl (\<lambda>acc v. acc + v) 0 totals'
              in if totalProb > 0 then map (\<lambda>v. v / totalProb) totals' else totals')"

section \<open>Open-ended bins\<close>

definition closedWidth :: "'a bounds_scheme \<Rightarrow> real option" where
  "closedWidth b =
     (case (lower b, upper b) of
        (Some l, Some u) \<Rightarrow> Some (u - l)
      | _ \<Rightarrow> None)"

definition estimateBinWidth :: "'a bounds_scheme list \<Rightarrow> real" where
  "estimateBinWidth bins =
     (let widths = map (\<lambda>v. coalesce v 0)
                     (filter (\<lambda>v. isFinite v \<and> coalesce v 0 > 0) (map closedWidth bins))
      in if widths = [] then 50000
         else let sorted = jsSort (\<lambda>a b. Finite (a - b)) widths;
                  mid = length sorted div 2
              in if length sorted mod 2 \<noteq> 0 then sorted ! mid
                 else (sorted ! (mid - 1) + sorted ! mid) / 2)"

definition midpointForBin :: "'a bounds_scheme \<Rightarrow> real \<Rightarrow> real" where
  "midpointForBin bin fallbackWidth =
     (case (lower bin, upper bin) of
        (Some l, Some u) \<Rightarrow> (l + u) / 2
      | (None, Some u) \<Rightarrow> u - fallbackWidth / 2
      | (Some l, None) \<Rightarrow> l + fallbackWidth / 2
      | (None, None) \<Rightarrow> 0)"

section \<open>Combining the venues\<close>

record merged = bounds +
  kalshi_prob :: "real option"
  polymarket_prob :: "real option"

record raw_entry = merged +
  combinedRaw :: "real option"

record entry = raw_entry +
  combined :: real

datatype venue = Kalshi | Polymarket

text \<open>The body of \<open>ingest(sourceKey, ranges)\<close> for one normalized range.\<close>

type_synonym merged_map = "((real option \<times> real option) \<times> merged) list"

definition ingestRange :: "venue \<Rightarrow> merged_map \<Rightarrow> range \<Rightarrow> merged_map" where
  "ingestRange sourceKey m r =
     (let key = rangeKey r;
          existing = (case mapGet key m of
                        Some e \<Rightarrow> e
                      | None \<Rightarrow> \<lparr>lower = lower r, upper = upper r,
                                  kalshi_prob = None, polymarket_prob = None\<rparr>);
          existing' = (case sourceKey of
                         Kalshi \<Rightarrow> existing\<lparr>kalshi_prob := prob r\<rparr>
                       | Polymarket \<Rightarrow> existing\<lparr>polymarket_prob := prob r\<rparr>)
      in mapSet key existing' m)"

definition withCombinedRaw :: "merged \<Rightarrow> raw_entry" where
  "withCombinedRaw e =
     (let sourcesList = map (\<lambda>v. coalesce v 0) (filter isFinite [kalshi_prob e, polymarket_prob e]);
          raw = (if sourcesList \<noteq> []
                 then Some (foldl (\<lambda>a b. a + b) 0 sourcesList / real (length sourcesList))
                 else None)
      in \<lparr>lower = lower e, upper = upper e, kalshi_prob = kalshi_prob e,
          polymarket_prob = polymarket_prob e, combinedRaw = raw\<rparr>)"

definition withCombined :: "real \<Rightarrow> raw_entry \<Rightarrow> entry" where
  "withCombined combinedTotal e =
     \<lparr>lower = lower e, upper = upper e, kalshi_prob = kalshi_prob e,
      polymarket_prob = polymarket_prob e, combinedRaw = combinedRaw e,
      combined = (if combinedTotal > 0 \<and> combinedRaw e \<noteq> None
                  then coalesce (combinedRaw e) 0 / combinedTotal else 0)\<rparr>"

text \<open>The part of \<open>combineDistributions\<close> after the two \<open>ingest\<close> calls; it is the
  same in both pages.\<close>

definition finishCombine :: "merged_map \<Rightarrow> entry list" where
  "finishCombine m =
     (let entries = map withCombinedRaw (map snd m);
          combinedTotal = foldl (\<lambda>acc e. acc + coalesce (combinedRaw e) 0) 0 entries
      in jsSort sortRanges (map (withCombined combinedTotal) entries))"

text \<open>\<open>combineDistributions(sources)\<close> of the detail page: each venue's brackets are
  normalized inside \<open>ingest\<close>.\<close>

definition combineDistributions :: "sources \<Rightarrow> entry list" where
  "combineDistributions srcs =
     (let m1 = foldl (ingestRange Kalshi) [] (normalizeDistribution (kalshi srcs));
          m2 = foldl (ingestRange Polymarket) m1 (normalizeDistribution (polymarket srcs))
      in finishCombine m2)"

text \<open>\<open>getPosterior\<close>: the precomputed block counts only when it has bins.\<close>

definition getPosterior :: "snapshot \<Rightarrow> posterior option" where
  "getPosterior snap =
     (case snap_posterior snap of
        Some p \<Rightarrow> if post_bins p \<noteq> [] then Some p else None
      | None \<Rightarrow> None)"

record pbin = bounds +
  midpoint :: "real option"
  mean :: "real option"
  p10 :: "real option"
  p90 :: "real option"

definition getPosteriorBins :: "snapshot \<Rightarrow> 'a bounds_scheme list \<Rightarrow> pbin list" where
  "getPosteriorBins snap bins =
     (case getPosterior snap of
        Some p \<Rightarrow>
          map (\<lambda>bin. \<lparr>lower = lower bin, upper = upper bin,
                       midpoint = toNumber (pb_midpoint bin), mean = toNumber (pb_mean bin),
                       p10 = toNumber (pb_p10 bin), p90 = toNumber (pb_p90 bin)\<rparr>) (post_bins p)
      | None \<Rightarrow>
          (let combinedEntries = combineDistributions (snap_sources snap);
               fallbackWidth = estimateBinWidth bins
           in map (\<lambda>e. \<lparr>lower = lower e, upper = upper e,
                          midpoint = Some (midpointForBin e fallbackWidth),
                          mean = Some (combined e), p10 = None, p90 = None\<rparr>) combinedEntries))"

definition expectedFromBins :: "pbin list \<Rightarrow> real" where
  "expectedFromBins bins =
     (let width = estimateBinWidth bins
      in foldl (\<lambda>total bin. case mean bin of
                                None \<Rightarrow> total
                              | Some p \<Rightarrow> total + p * midpointForBin bin width) 0 bins)"

definition expectedFromRanges :: "raw_range list \<Rightarrow> 'a bounds_scheme list \<Rightarrow> real option" where
  "expectedFromRanges ranges bins =
     (let normalized = normalizeDistribution ranges
      in if normalized = [] then None
         else let width = estimateBinWidth bins
              in Some (foldl (\<lambda>total r. case prob r of
                                            None \<Rightarrow> total
                                          | Some p \<Rightarrow> total + p * midpointForBin r width)
                         0 normalized))"

section \<open>Volume weights\<close>

definition clamp :: "real \<Rightarrow> real \<Rightarrow> real \<Rightarrow> real" where
  "clamp v lo hi = min (max v lo) hi"

definition log1p :: "real \<Rightarrow> real" where
  "log1p x = ln (1 + x)"

definition computeVolumeWeights :: "real option \<Rightarrow> real option \<Rightarrow> weights option" where
  "computeVolumeWeights kalshiVol polymarketVol =
     (case (kalshiVol, polymarketVol) of
        (Some k, Some p) \<Rightarrow>
          if k \<le> 0 \<or> p \<le> 0 then None
          else let rawKalshi = log1p k;
                   rawPoly = log1p p;
                   mean = (rawKalshi + rawPoly) / 2
               in if \<not> (mean > 0) then None
                  else Some \<lparr>weight_kalshi = clamp (rawKalshi / mean) 0.5 3.0,
                             weight_polymarket = clamp (rawPoly / mean) 0.5 3.0\<rparr>
      | _ \<Rightarrow> None)"

record blend =
  blend_weights :: weights
  kalshiVol :: "real option"
  polyVol :: "real option"

definition getBlendWeightData :: "snapshot option \<Rightarrow> blend option" where
  "getBlendWeightData s =
     (case s of
        None \<Rightarrow> None
      | Some snap \<Rightarrow>
          (let kv = toNumber (kalshi_volume snap);
               pv = toNumber (polymarket_volume snap);
               precomputed = (case snap_posterior snap of
                                Some p \<Rightarrow> volume_weights p
                              | None \<Rightarrow> None);
               ws = (case precomputed of
                       Some w \<Rightarrow> Some w
                     | None \<Rightarrow> computeVolumeWeights kv pv)
           in case ws of
                None \<Rightarrow> None
              | Some w \<Rightarrow> Some \<lparr>blend_weights = w, kalshiVol = kv, polyVol = pv\<rparr>))"

text \<open>
  The multiplier the weights are used as: \<open>buildUncertaintySeriesFromHistory\<close> blends
  the venues' band widths with \<open>toNumber(weightMap?.[key]) || 1\<close>, where \<open>weightMap\<close> is
  \<open>getBlendWeightData(snapshot)?.weights || null\<close>.  A venue without a weight, or with
  the weight 0, counts with the multiplier 1.
\<close>

definition blendWeight :: "snapshot option \<Rightarrow> venue \<Rightarrow> real" where
  "blendWeight s key =
     (case getBlendWeightData s of
        None \<Rightarrow> 1
      | Some b \<Rightarrow>
          (let w = (case key of
                      Kalshi \<Rightarrow> weight_kalshi (blend_weights b)
                    | Polymarket \<Rightarrow> weight_polymarket (blend_weights b))
           in if w = 0 then 1 else w))"

section \<open>Latest snapshot and history\<close>

text \<open>A snapshot paired with its time value \<open>ts\<close>; null when \<open>as_of\<close> does not parse
  to a finite time.\<close>

definition timeOf :: "snapshot \<Rightarrow> real option" where
  "timeOf snap =
     (case parseDate (as_of snap) of
        Some (Finite t) \<Rightarrow> Some t
      | _ \<Rightarrow> None)"

definition timedSnapshots :: "snapshot list \<Rightarrow> (snapshot \<times> real option) list" where
  "timedSnapshots snapshots =
     filter (\<lambda>item. isFinite (snd item)) (map (\<lambda>snap. (snap, timeOf snap)) snapshots)"

definition tsOf :: "snapshot \<times> real option \<Rightarrow> real" where
  "tsOf item = coalesce (snd item) 0"

text \<open>\<open>pickLatestSnapshot\<close> of the detail page: sort by descending time, take the first.\<close>

definition pickLatestSnapshot :: "snapshot list \<Rightarrow> snapshot option" where
  "pickLatestSnapshot snapshots =
     (let sorted = map fst (jsSort (\<lambda>a b. Finite (tsOf b - tsOf a)) (timedSnapshots snapshots))
      in case sorted of [] \<Rightarrow> None | s # _ \<Rightarrow> Some s)"


record point =
  pt_x :: real
  pt_y :: real

record series =
  points :: "point list"
  bandLow :: "point list"
  bandHigh :: "point list"

text \<open>The value, and the band when there is one, that \<open>buildExpectationSeries\<close> computes
  for one snapshot and provider.\<close>

definition seriesValue ::
  "string \<Rightarrow> snapshot \<Rightarrow> real option \<times> real option \<times> real option" where
  "seriesValue provider snap =
     (let bins = getBinsFromSources (snap_sources snap)
      in if provider = ''posterior''
         then (case (case getPosterior snap of Some p \<Rightarrow> post_expected p | None \<Rightarrow> None) of
                 Some ex \<Rightarrow> (toNumber (exp_mean ex), toNumber (exp_p10 ex), toNumber (exp_p90 ex))
               | None \<Rightarrow> (Some (expectedFromBins (getPosteriorBins snap bins)), None, None))
         else if provider = ''kalshi''
         then (expectedFromRanges (kalshi (snap_sources snap)) bins, None, None)
         else if provider = ''polymarket''
         then (expectedFromRanges (polymarket (snap_sources snap)) bins, None, None)
         else (None, None, None))"

definition addPoint :: "string \<Rightarrow> real \<Rightarrow> series \<Rightarrow> snapshot \<times> real option \<Rightarrow> series" where
  "addPoint provider cutoff acc item =
     (let ts = tsOf item
      in if ts < cutoff then acc
         else case seriesValue provider (fst item) of
                (None, _, _) \<Rightarrow> acc
              | (Some v, lo, hi) \<Rightarrow>
                  (let acc' = acc\<lparr>points := points acc @ [\<lparr>pt_x = ts, pt_y = v\<rparr>]\<rparr>
                   in case (lo, hi) of
                        (Some l, Some h) \<Rightarrow>
                          acc'\<lparr>bandLow := bandLow acc' @ [\<lparr>pt_x = ts, pt_y = l\<rparr>],
                               bandHigh := bandHigh acc' @ [\<lparr>pt_x = ts, pt_y = h\<rparr>]\<rparr>
                      | _ \<Rightarrow> acc'))"

definition buildExpectationSeries :: "snapshot list \<Rightarrow> string \<Rightarrow> real \<Rightarrow> series" where
  "buildExpectationSeries snapshots provider lookbackDays =
     (let sorted = jsSort (\<lambda>a b. Finite (tsOf a - tsOf b)) (timedSnapshots snapshots)
      in if sorted = [] then \<lparr>points = [], bandLow = [], bandHigh = []\<rparr>
         else let latest = tsOf (last sorted);
                  cutoff = latest - lookbackDays * 24 * 60 * 60 * 1000
              in foldl (addPoint provider cutoff) \<lparr>points = [], bandLow = [], bandHigh = []\<rparr> sorted)"

section \<open>The overview page\<close>







section \<open>The detail page\<close>



section \<open>Notions of the specification\<close>

text \<open>
  The median of a list of numbers, as the specification uses the word: the middle
  element of the sorted list, or the mean of the two middle elements when the count is
  even.
\<close>

definition median :: "real list \<Rightarrow> real" where
  "median ws =
     (let s = sort ws; n = length s
      in if odd n then s ! (n div 2) else (s ! (n div 2 - 1) + s ! (n div 2)) / 2)"

text \<open>The widths of the closed bins (both bounds finite) of a list of bins, in order.\<close>

definition closedWidths :: "'a bounds_scheme list \<Rightarrow> real list" where
  "closedWidths bins =
     concat (map (\<lambda>b. case closedWidth b of Some w \<Rightarrow> [w] | None \<Rightarrow> []) bins)"

text \<open>The length of the intersection of two intervals; 0 when they do not meet.\<close>

definition intersectionLength :: "interval \<Rightarrow> interval \<Rightarrow> real" where
  "intersectionLength a b =
     (if max (ilower a) (ilower b) \<le> min (iupper a) (iupper b)
      then min (iupper a) (iupper b) - max (ilower a) (ilower b) else 0)"

text \<open>
  The mass a venue range gives to a canonical bin under the uniform-density assumption:
  its probability times the length of the overlap over the length of the range.  A range
  without positive probability or without positive width gives nothing.
\<close>

definition rangeMass :: "real \<Rightarrow> real \<Rightarrow> real \<Rightarrow> range \<Rightarrow> bounds \<Rightarrow> real" where
  "rangeMass minBound maxBound step r b =
     (let src = expandRange r minBound maxBound step;
          dst = expandRange b minBound maxBound step;
          width = iupper src - ilower src
      in case prob r of
           None \<Rightarrow> 0
         | Some p \<Rightarrow> if p > 0 \<and> width > 0 then p * (intersectionLength src dst / width) else 0)"

text \<open>The same mass with the bounds \<open>aggregateRangesToStandard\<close> derives from the grid.\<close>

definition gridMass :: "bounds list \<Rightarrow> meta \<Rightarrow> range \<Rightarrow> bounds \<Rightarrow> real" where
  "gridMass standardBins m r b =
     rangeMass (minBoundOf standardBins)
       (maxBoundOf standardBins (minBoundOf standardBins) (stepForMeta m)) (stepForMeta m) r b"

text \<open>The projection of a posterior bin and of a normalized range onto what the
  single-venue fallback compares: bounds, probability and the two quantiles.\<close>

definition binSummary :: "pbin \<Rightarrow> real option \<times> real option \<times> real option \<times> real option \<times> real option" where
  "binSummary b = (lower b, upper b, mean b, p10 b, p90 b)"

definition rangeSummary :: "range \<Rightarrow> real option \<times> real option \<times> real option \<times> real option \<times> real option" where
  "rangeSummary r = (lower r, upper r, prob r, None, None)"

text \<open>
  A venue's brackets are aligned to a grid when there is one bracket per bin, in order,
  with the bin's bounds and a probability that is a non-negative finite number.
\<close>

definition alignedBracket :: "raw_range \<Rightarrow> bounds \<Rightarrow> bool" where
  "alignedBracket r b =
     (toNumber (raw_lower r) = lower b \<and> toNumber (raw_upper r) = upper b
      \<and> (case toNumber (raw_prob r) of Some p \<Rightarrow> 0 \<le> p | None \<Rightarrow> False))"

definition alignedTo :: "raw_range list \<Rightarrow> bounds list \<Rightarrow> bool" where
  "alignedTo ranges standardBins = list_all2 alignedBracket ranges standardBins"

section \<open>Auxiliary notions\<close>

text \<open>The map entry \<open>ingest\<close> creates for a range whose key is not in the map yet.\<close>

definition mergedOf :: "venue \<Rightarrow> range \<Rightarrow> (real option \<times> real option) \<times> merged" where
  "mergedOf src r =
     (rangeKey r,
      case src of
        Kalshi \<Rightarrow> \<lparr>lower = lower r, upper = upper r, kalshi_prob = prob r, polymarket_prob = None\<rparr>
      | Polymarket \<Rightarrow> \<lparr>lower = lower r, upper = upper r, kalshi_prob = None, polymarket_prob = prob r\<rparr>)"

section \<open>Example data\<close>

text \<open>A snapshot without volume metadata for the first venue.\<close>

definition snapshotWithoutKalshiVolume :: snapshot where
  "snapshotWithoutKalshiVolume =
     \<lparr>as_of = Falsy, snap_sources = \<lparr>kalshi = [], polymarket = [], others = []\<rparr>,
      kalshi_volume = Null, polymarket_volume = Numeric (Finite 1000),
      snap_posterior = None\<rparr>"

text \<open>Three bins, one of them closed with width zero, and three bins of widths
  10000, 20000 and 30000 with two open-ended ones around them.\<close>

definition binsWithEmptyBin :: "bounds list" where
  "binsWithEmptyBin =
     [\<lparr>lower = Some 0, upper = Some 0\<rparr>, \<lparr>lower = Some 0, upper = Some 10\<rparr>,
      \<lparr>lower = Some 10, upper = Some 30\<rparr>]"

definition binsOfSpecExample :: "bounds list" where
  "binsOfSpecExample =
     [\<lparr>lower = None, upper = Some 0\<rparr>, \<lparr>lower = Some 0, upper = Some 10000\<rparr>,
      \<lparr>lower = Some 10000, upper = Some 30000\<rparr>, \<lparr>lower = Some 30000, upper = Some 60000\<rparr>,
      \<lparr>lower = Some 60000, upper = None\<rparr>]"

text \<open>A venue quoting three brackets for a payrolls event, with the canonical grid of
  step 25000 over them; a venue quoting the two brackets of the specification's
  single-venue scenario; and a history of three snapshots of which the second has a
  timestamp that does not parse.\<close>

definition jobsMeta :: meta where
  "jobsMeta = \<lparr>format = ''jobs''\<rparr>"

definition threeBrackets :: "raw_range list" where
  "threeBrackets =
     [\<lparr>raw_lower = Null, raw_upper = Numeric (Finite 50000), raw_prob = Numeric (Finite 20)\<rparr>,
      \<lparr>raw_lower = Numeric (Finite 50000), raw_upper = Numeric (Finite 100000),
         raw_prob = Numeric (Finite 50)\<rparr>,
      \<lparr>raw_lower = Numeric (Finite 100000), raw_upper = Null, raw_prob = Numeric (Finite 30)\<rparr>]"

definition threeBracketsGrid :: "bounds list" where
  "threeBracketsGrid =
     [\<lparr>lower = None, upper = Some 50000\<rparr>, \<lparr>lower = Some 50000, upper = Some 75000\<rparr>,
      \<lparr>lower = Some 75000, upper = Some 100000\<rparr>, \<lparr>lower = Some 100000, upper = None\<rparr>]"

definition singleVenueSources :: sources where
  "singleVenueSources =
     \<lparr>kalshi = [\<lparr>raw_lower = Null, raw_upper = Numeric (Finite 50000),
                   raw_prob = Numeric (Finite (2 / 5))\<rparr>,
                 \<lparr>raw_lower = Numeric (Finite 50000), raw_upper = Null,
                   raw_prob = Numeric (Finite (3 / 5))\<rparr>],
      polymarket = [], others = []\<rparr>"

definition snapshotAt :: "jsnum \<Rightarrow> snapshot" where
  "snapshotAt t =
     \<lparr>as_of = DateValue t, snap_sources = singleVenueSources,
      kalshi_volume = Null, polymarket_volume = Null, snap_posterior = None\<rparr>"

definition exampleHistory :: "snapshot list" where
  "exampleHistory = [snapshotAt (Finite 200), snapshotAt NaN, snapshotAt (Finite 100)]"


text \<open>The three brackets above, restated on their canonical grid.\<close>

definition gridBrackets :: "raw_range list" where
  "gridBrackets =
     [\<lparr>raw_lower = Null, raw_upper = Numeric (Finite 50000), raw_prob = Numeric (Finite 20)\<rparr>,
      \<lparr>raw_lower = Numeric (Finite 50000), raw_upper = Numeric (Finite 75000),
         raw_prob = Numeric (Finite 25)\<rparr>,
      \<lparr>raw_lower = Numeric (Finite 75000), raw_upper = Numeric (Finite 100000),
         raw_prob = Numeric (Finite 25)\<rparr>,
      \<lparr>raw_lower = Numeric (Finite 100000), raw_upper = Null, raw_prob = Numeric (Finite 30)\<rparr>]"

text \<open>A snapshot without volume metadata for the first venue that carries precomputed
  volume weights in its posterior block.\<close>

definition snapshotWithPrecomputedWeights :: snapshot where
  "snapshotWithPrecomputedWeights =
     \<lparr>as_of = Falsy, snap_sources = \<lparr>kalshi = [], polymarket = [], others = []\<rparr>,
      kalshi_volume = Null, polymarket_volume = Numeric (Finite 1000),
      snap_posterior =
        Some \<lparr>post_bins = [], post_expected = None,
              volume_weights = Some \<lparr>weight_kalshi = 2, weight_polymarket = 1 / 2\<rparr>\<rparr>\<rparr>"

text \<open>A snapshot in which only the first venue reports, with the three brackets above;
  and a venue whose only bracket has probability zero.\<close>

definition oneVenueReporting :: sources where
  "oneVenueReporting = \<lparr>kalshi = threeBrackets, polymarket = [], others = []\<rparr>"


text \<open>A snapshot in which only the first venue reports, with two brackets over the same
  bounds.\<close>

definition duplicateBracketsSnapshot :: snapshot where
  "duplicateBracketsSnapshot =
     \<lparr>as_of = DateValue (Finite 400),
      snap_sources =
        \<lparr>kalshi = [\<lparr>raw_lower = Numeric (Finite 0), raw_upper = Numeric (Finite 10),
                      raw_prob = Numeric (Finite (2 / 5))\<rparr>,
                    \<lparr>raw_lower = Numeric (Finite 0), raw_upper = Numeric (Finite 10),
                      raw_prob = Numeric (Finite (3 / 5))\<rparr>],
         polymarket = [], others = []\<rparr>,
      kalshi_volume = Null, polymarket_volume = Null, snap_posterior = None\<rparr>"

text \<open>
  A percent event whose only reporting venue quotes below 4.0, 4.0 to 4.1, 4.1 to 4.2 and
  above 4.2; the bounds are the doubles nearest to these decimals.
\<close>

definition percentMeta :: meta where
  "percentMeta = \<lparr>format = ''percent''\<rparr>"

definition percentSources :: sources where
  "percentSources =
     \<lparr>kalshi = [\<lparr>raw_lower = Null, raw_upper = Numeric (Finite 4),
                   raw_prob = Numeric (Finite (1 / 10))\<rparr>,
                 \<lparr>raw_lower = Numeric (Finite 4), raw_upper = Numeric (Finite (roundDouble (41 / 10))),
                   raw_prob = Numeric (Finite (2 / 5))\<rparr>,
                 \<lparr>raw_lower = Numeric (Finite (roundDouble (41 / 10))),
                   raw_upper = Numeric (Finite (roundDouble (42 / 10))),
                   raw_prob = Numeric (Finite (2 / 5))\<rparr>,
                 \<lparr>raw_lower = Numeric (Finite (roundDouble (42 / 10))), raw_upper = Null,
                   raw_prob = Numeric (Finite (1 / 10))\<rparr>],
      polymarket = [], others = []\<rparr>"

text \<open>
  The canonical grid \<open>buildStandardBins\<close> computes for it.  The loop adds the step 0.1
  three times to 4; the third and fourth sums are the doubles 4.199999999999999 and
  4.299999999999999, while the bound of the open bin is the double 4.2 = 42 * 0.1.
\<close>

definition percentGrid :: "bounds list" where
  "percentGrid =
     [\<lparr>lower = None, upper = Some 4\<rparr>,
      \<lparr>lower = Some 4, upper = Some (2308094809027379 / 562949953421312)\<rparr>,
      \<lparr>lower = Some (2308094809027379 / 562949953421312),
        upper = Some (1182194902184755 / 281474976710656)\<rparr>,
      \<lparr>lower = Some (1182194902184755 / 281474976710656),
        upper = Some (2420684799711641 / 562949953421312)\<rparr>,
      \<lparr>lower = Some (4728779608739021 / 1125899906842624), upper = None\<rparr>]"

text \<open>A probability vector over a grid, as the brackets of a venue: one bracket per bin,
  with the bin's bounds.\<close>

fun boundValue :: "real option \<Rightarrow> jsval" where
  "boundValue None = Null"
| "boundValue (Some v) = Numeric (Finite v)"

definition onGrid :: "bounds list \<Rightarrow> real list \<Rightarrow> raw_range list" where
  "onGrid standardBins ps =
     map (\<lambda>(b, p). \<lparr>raw_lower = boundValue (lower b), raw_upper = boundValue (upper b),
                      raw_prob = Numeric (Finite p)\<rparr>) (zip standardBins ps)"

text \<open>A venue aligned to that grid that gives every bin the probability 0.2.\<close>

definition evenPercentBrackets :: "raw_range list" where
  "evenPercentBrackets = onGrid percentGrid [1 / 5, 1 / 5, 1 / 5, 1 / 5, 1 / 5]"

section \<open>Verified properties\<close>

subsection \<open>Normalizing one venue's brackets\<close>

lemma foldl_add_sum: "foldl (\<lambda>acc r. acc + f r) (a::real) xs = a + sum_list (map f xs)"
  by (induction xs arbitrary: a) auto

lemma normalizeProb_None_iff: "normalizeProb v = None \<longleftrightarrow> toNumber v = None"
  by (cases "toNumber v") (simp_all add: normalizeProb_def del: not_None_eq)

lemma prob_cleanRange: "prob (cleanRange r) = normalizeProb (raw_prob r)"
  by (simp add: cleanRange_def)

lemma coalesce_normalizeProb:
  "toNumber (raw_prob r) \<noteq> None \<Longrightarrow> coalesce (normalizeProb (raw_prob r)) 0 = rawProbValue r"
  by (auto simp: normalizeProb_def rawProbValue_def)

lemma filter_clean:
  "filter (\<lambda>r. prob r \<noteq> None) (map cleanRange rs)
     = map cleanRange (filter (\<lambda>r. toNumber (raw_prob r) \<noteq> None) rs)"
  by (induction rs) (simp_all add: prob_cleanRange normalizeProb_None_iff)

lemma cleaned_total:
  "foldl (\<lambda>acc r. acc + coalesce (prob r) 0) 0
       (map cleanRange (filter (\<lambda>r. toNumber (raw_prob r) \<noteq> None) rs))
     = sum_list (map rawProbValue (filter (\<lambda>r. toNumber (raw_prob r) \<noteq> None) rs))"
proof -
  have "map (\<lambda>r. coalesce (prob r) 0)
            (map cleanRange (filter (\<lambda>r. toNumber (raw_prob r) \<noteq> None) rs))
      = map rawProbValue (filter (\<lambda>r. toNumber (raw_prob r) \<noteq> None) rs)"
    unfolding map_map
    by (rule map_cong[OF refl])
       (simp add: prob_cleanRange coalesce_normalizeProb del: not_None_eq)
  then show ?thesis by (simp only: foldl_add_sum add_0_left)
qed

text \<open>
  Closed form of \<open>normalizeDistribution\<close>: the brackets whose probability is a finite
  number are kept, in order; each keeps its bounds, and its probability is the
  un-normalized value divided by the total when the total is positive.
\<close>

lemma normalizeDistribution_closed_form:
  "normalizeDistribution rs =
     (let kept = filter (\<lambda>r. toNumber (raw_prob r) \<noteq> None) rs;
          total = sum_list (map rawProbValue kept)
      in map (\<lambda>r. \<lparr>lower = toNumber (raw_lower r), upper = toNumber (raw_upper r),
                     prob = Some (if total > 0 then rawProbValue r / total
                                  else rawProbValue r)\<rparr>) kept)"
proof -
  let ?kept = "filter (\<lambda>r. toNumber (raw_prob r) \<noteq> None) rs"
  let ?total = "sum_list (map rawProbValue ?kept)"
  have keep: "\<And>r. r \<in> set ?kept \<Longrightarrow> prob (cleanRange r) = Some (rawProbValue r)"
  proof -
    fix r assume "r \<in> set ?kept"
    then obtain n where "toNumber (raw_prob r) = Some n" by auto
    then show "prob (cleanRange r) = Some (rawProbValue r)"
      by (simp add: prob_cleanRange normalizeProb_def rawProbValue_def)
  qed
  show ?thesis
  proof (cases "?total > 0")
    case True
    then have "normalizeDistribution rs
        = map (\<lambda>r. r\<lparr>prob := Some (coalesce (prob r) 0 / ?total)\<rparr>) (map cleanRange ?kept)"
      unfolding normalizeDistribution_def filter_clean cleaned_total Let_def by simp
    also have "\<dots> = map (\<lambda>r. \<lparr>lower = toNumber (raw_lower r), upper = toNumber (raw_upper r),
                     prob = Some (rawProbValue r / ?total)\<rparr>) ?kept"
      using keep by (auto simp: cleanRange_def)
    finally show ?thesis using True by (simp add: Let_def)
  next
    case False
    then have "normalizeDistribution rs = map cleanRange ?kept"
      unfolding normalizeDistribution_def filter_clean cleaned_total Let_def by simp
    also have "\<dots> = map (\<lambda>r. \<lparr>lower = toNumber (raw_lower r), upper = toNumber (raw_upper r),
                     prob = Some (rawProbValue r)\<rparr>) ?kept"
      using keep by (auto simp: cleanRange_def)
    finally show ?thesis using False by (simp add: Let_def)
  qed
qed

text \<open>
  Claim C10.  A probability value strictly greater than 1.5 is read as a percentage and
  divided by 100, a value at or below 1.5 is taken as it is, and a value that is not a
  finite number gives null; \<open>normalizeDistribution\<close> drops the brackets whose
  probability is not a finite number and divides the remaining values, after the
  percentage rule, by their total when that total is positive.
\<close>

theorem normalizeDistribution_percent_rule:
  "normalizeProb v =
     (case toNumber v of None \<Rightarrow> None | Some n \<Rightarrow> Some (if n > 1.5 then n / 100 else n))
   \<and> normalizeDistribution rs =
     (let kept = filter (\<lambda>r. toNumber (raw_prob r) \<noteq> None) rs;
          total = sum_list (map (\<lambda>r. coalesce (normalizeProb (raw_prob r)) 0) kept)
      in map (\<lambda>r. \<lparr>lower = toNumber (raw_lower r), upper = toNumber (raw_upper r),
                     prob = Some (if total > 0
                                  then coalesce (normalizeProb (raw_prob r)) 0 / total
                                  else coalesce (normalizeProb (raw_prob r)) 0)\<rparr>) kept)"
proof
  show "normalizeProb v =
     (case toNumber v of None \<Rightarrow> None | Some n \<Rightarrow> Some (if n > 1.5 then n / 100 else n))"
    by (simp add: normalizeProb_def split: option.splits)
next
  let ?kept = "filter (\<lambda>r. toNumber (raw_prob r) \<noteq> None) rs"
  have q: "\<And>r. r \<in> set ?kept \<Longrightarrow> coalesce (normalizeProb (raw_prob r)) 0 = rawProbValue r"
    by (rule coalesce_normalizeProb) simp
  then have tot: "map (\<lambda>r. coalesce (normalizeProb (raw_prob r)) 0) ?kept = map rawProbValue ?kept"
    by (intro map_cong[OF refl])
  show "normalizeDistribution rs =
     (let kept = filter (\<lambda>r. toNumber (raw_prob r) \<noteq> None) rs;
          total = sum_list (map (\<lambda>r. coalesce (normalizeProb (raw_prob r)) 0) kept)
      in map (\<lambda>r. \<lparr>lower = toNumber (raw_lower r), upper = toNumber (raw_upper r),
                     prob = Some (if total > 0
                                  then coalesce (normalizeProb (raw_prob r)) 0 / total
                                  else coalesce (normalizeProb (raw_prob r)) 0)\<rparr>) kept)"
    unfolding normalizeDistribution_closed_form Let_def tot
    by (rule map_cong[OF refl]) (simp add: q)
qed

theorem normalizeDistribution_percent_rule_witness:
  "normalizeProb (Numeric (Finite 40)) = Some (2 / 5)
   \<and> normalizeProb (Numeric (Finite (3 / 2))) = Some (3 / 2)
   \<and> normalizeProb (Numeric NaN) = None
   \<and> normalizeDistribution
        [\<lparr>raw_lower = Null, raw_upper = Numeric (Finite 0), raw_prob = Numeric (Finite 40)\<rparr>,
         \<lparr>raw_lower = Numeric (Finite 0), raw_upper = Null, raw_prob = Numeric (Finite (3 / 5))\<rparr>,
         \<lparr>raw_lower = Numeric (Finite 5), raw_upper = Null, raw_prob = Str False NaN\<rparr>]
       = [\<lparr>lower = None, upper = Some 0, prob = Some (2 / 5)\<rparr>,
          \<lparr>lower = Some 0, upper = None, prob = Some (3 / 5)\<rparr>]"
  using normalizeDistribution_percent_rule [of "Numeric (Finite 40)"
      "[\<lparr>raw_lower = Null, raw_upper = Numeric (Finite 0), raw_prob = Numeric (Finite 40)\<rparr>,
         \<lparr>raw_lower = Numeric (Finite 0), raw_upper = Null, raw_prob = Numeric (Finite (3 / 5))\<rparr>,
         \<lparr>raw_lower = Numeric (Finite 5), raw_upper = Null, raw_prob = Str False NaN\<rparr>]"]
    normalizeDistribution_percent_rule [of "Numeric (Finite (3 / 2))" "[]"]
    normalizeDistribution_percent_rule [of "Numeric NaN" "[]"]
  by (simp add: Let_def normalizeProb_def del: not_None_eq)

subsection \<open>Volume weights\<close>

lemma log1p_pos: "0 < v \<Longrightarrow> 0 < log1p v"
  by (simp add: log1p_def)

lemma clamp_bounds: "lo \<le> hi \<Longrightarrow> lo \<le> clamp v lo hi \<and> clamp v lo hi \<le> hi"
  by (simp add: clamp_def)

lemma log1p_3: "log1p 3 = 2 * log1p 1"
proof -
  have "ln (4::real) = ln (2 ^ 2)" by simp
  also have "\<dots> = 2 * ln 2" by (subst ln_realpow) simp_all
  finally show ?thesis by (simp add: log1p_def)
qed

text \<open>
  Claim C5.  When both venues report a positive notional volume, each venue's multiplier
  is \<open>clamp(log1p(volume) / mean, 0.5, 3.0)\<close>, the mean being that of \<open>log1p(volume)\<close>
  over the two venues, and so lies between 0.5 and 3.0.
\<close>

theorem computeVolumeWeights_clamped:
  assumes "0 < k" and "0 < p"
  shows "\<exists>w. computeVolumeWeights (Some k) (Some p) = Some w
           \<and> weight_kalshi w = clamp (log1p k / ((log1p k + log1p p) / 2)) 0.5 3.0
           \<and> weight_polymarket w = clamp (log1p p / ((log1p k + log1p p) / 2)) 0.5 3.0
           \<and> 0.5 \<le> weight_kalshi w \<and> weight_kalshi w \<le> 3.0
           \<and> 0.5 \<le> weight_polymarket w \<and> weight_polymarket w \<le> 3.0"
proof -
  have m: "0 < (log1p k + log1p p) / 2"
    using log1p_pos[OF assms(1)] log1p_pos[OF assms(2)] by simp
  have "computeVolumeWeights (Some k) (Some p)
      = Some \<lparr>weight_kalshi = clamp (log1p k / ((log1p k + log1p p) / 2)) 0.5 3.0,
              weight_polymarket = clamp (log1p p / ((log1p k + log1p p) / 2)) 0.5 3.0\<rparr>"
    using assms m by (simp add: computeVolumeWeights_def Let_def)
  moreover have "(0.5::real) \<le> 3.0" by simp
  ultimately show ?thesis
    using clamp_bounds[of "0.5" "3.0"] by simp
qed

theorem computeVolumeWeights_clamped_witness:
  "(0::real) < 1 \<and> (0::real) < 3
   \<and> (\<exists>w. computeVolumeWeights (Some 1) (Some 3) = Some w
           \<and> weight_kalshi w = 2 / 3 \<and> weight_polymarket w = 4 / 3)"
proof -
  have "log1p 1 > 0" by (simp add: log1p_def)
  then show ?thesis
    using computeVolumeWeights_clamped [of 1 3]
    by (auto simp: clamp_def log1p_3 field_simps)
qed

text \<open>
  Claim C4, as stated: a snapshot in which a venue lacks volume metadata has the
  multiplier 1.0 for every venue.  It fails for a snapshot that carries precomputed
  volume weights: \<open>getBlendWeightData\<close> prefers them to \<open>computeVolumeWeights\<close>, and
  the venues are weighted with them.
\<close>

theorem precomputed_weights_counterexample:
  "toNumber (kalshi_volume snapshotWithPrecomputedWeights) = None
   \<and> blendWeight (Some snapshotWithPrecomputedWeights) Kalshi = 2
   \<and> blendWeight (Some snapshotWithPrecomputedWeights) Polymarket = 1 / 2
   \<and> blendWeight (Some snapshotWithPrecomputedWeights) Kalshi \<noteq> 1"
  by (simp add: snapshotWithPrecomputedWeights_def blendWeight_def getBlendWeightData_def)

text \<open>
  Claim C4, amended.  When at least one venue lacks volume metadata and the snapshot
  carries no precomputed volume weights, \<open>computeVolumeWeights\<close> yields no weights,
  whatever the other venue's volume, \<open>getBlendWeightData\<close> yields nothing, and every
  venue is weighted with the multiplier 1.
\<close>

theorem missing_volume_weight_one:
  assumes "toNumber (kalshi_volume snap) = None \<or> toNumber (polymarket_volume snap) = None"
    and "(case snap_posterior snap of Some q \<Rightarrow> volume_weights q | None \<Rightarrow> None) = None"
  shows "computeVolumeWeights (toNumber (kalshi_volume snap)) (toNumber (polymarket_volume snap))
           = None
       \<and> getBlendWeightData (Some snap) = None
       \<and> blendWeight (Some snap) Kalshi = 1
       \<and> blendWeight (Some snap) Polymarket = 1"
proof -
  have c: "computeVolumeWeights (toNumber (kalshi_volume snap))
             (toNumber (polymarket_volume snap)) = None"
    using assms(1) by (auto simp: computeVolumeWeights_def split: option.splits)
  have g: "getBlendWeightData (Some snap) = None"
    using assms(2) c by (simp add: getBlendWeightData_def Let_def)
  show ?thesis using c g by (simp add: blendWeight_def)
qed

theorem missing_volume_weight_one_witness:
  "(toNumber (kalshi_volume snapshotWithoutKalshiVolume) = None
      \<or> toNumber (polymarket_volume snapshotWithoutKalshiVolume) = None)
   \<and> (case snap_posterior snapshotWithoutKalshiVolume of
         Some q \<Rightarrow> volume_weights q | None \<Rightarrow> None) = None
   \<and> getBlendWeightData (Some snapshotWithoutKalshiVolume) = None
   \<and> blendWeight (Some snapshotWithoutKalshiVolume) Kalshi = 1
   \<and> blendWeight (Some snapshotWithoutKalshiVolume) Polymarket = 1"
proof -
  have h1: "toNumber (kalshi_volume snapshotWithoutKalshiVolume) = None
      \<or> toNumber (polymarket_volume snapshotWithoutKalshiVolume) = None"
    by (simp add: snapshotWithoutKalshiVolume_def)
  have h2: "(case snap_posterior snapshotWithoutKalshiVolume of
         Some q \<Rightarrow> volume_weights q | None \<Rightarrow> None) = None"
    by (simp add: snapshotWithoutKalshiVolume_def)
  from missing_volume_weight_one [OF h1 h2] h1 h2 show ?thesis by simp
qed

subsection \<open>Open-ended bins\<close>

lemma jsInsert_numeric: "jsInsert (\<lambda>a b. Finite (f a - f b)) v ys = insort_key f v ys"
  for f :: "'a \<Rightarrow> real"
  by (induction ys) auto

lemma jsSort_numeric: "jsSort (\<lambda>a b. Finite (f a - f b)) xs = sort_key f xs"
  for f :: "'a \<Rightarrow> real"
  by (induction xs) (simp_all add: jsSort_def jsInsert_numeric)

lemma widths_filter:
  "map (\<lambda>v. coalesce v 0) (filter (\<lambda>v. isFinite v \<and> coalesce v 0 > 0) (map closedWidth bins))
     = filter (\<lambda>w. w > 0) (closedWidths bins)"
  by (induction bins) (auto simp: closedWidths_def isFinite_def split: option.splits)

lemma estimateBinWidth_median:
  "estimateBinWidth bins =
     (if filter (\<lambda>w. w > 0) (closedWidths bins) = [] then 50000
      else median (filter (\<lambda>w. w > 0) (closedWidths bins)))"
  unfolding estimateBinWidth_def widths_filter Let_def median_def
  using jsSort_numeric[of "\<lambda>v. v"] by (simp add: odd_iff_mod_2_eq_one)

text \<open>
  Claim C3, as stated: the synthetic width is the median of the widths of the closed
  bins.  It fails where a closed bin has width zero: the code leaves such a bin out
  before taking the median.
\<close>

theorem estimateBinWidth_counterexample:
  "estimateBinWidth binsWithEmptyBin = 15 \<and> median (closedWidths binsWithEmptyBin) = 10
   \<and> estimateBinWidth binsWithEmptyBin \<noteq> median (closedWidths binsWithEmptyBin)"
  by (simp add: estimateBinWidth_median binsWithEmptyBin_def closedWidths_def closedWidth_def
      median_def)

text \<open>
  Claim C3, amended.  The synthetic width is the median of the positive widths of the
  closed bins, closed bins of width zero or less being left out; positive widths
  10000, 20000, 30000 give 20000; the width is the literal 50000 when no closed bin has
  a positive width; and the midpoint of an open-ended bin lies half that width beyond
  its finite bound.
\<close>

theorem estimateBinWidth_positive_median:
  "estimateBinWidth bins =
     (if filter (\<lambda>w. w > 0) (closedWidths bins) = [] then 50000
      else median (filter (\<lambda>w. w > 0) (closedWidths bins)))
   \<and> (filter (\<lambda>w. w > 0) (closedWidths bins) = [10000, 20000, 30000]
        \<longrightarrow> estimateBinWidth bins = 20000)
   \<and> (lower b = None \<and> upper b = Some u
        \<longrightarrow> midpointForBin b (estimateBinWidth bins) = u - estimateBinWidth bins / 2)
   \<and> (lower b = Some l \<and> upper b = None
        \<longrightarrow> midpointForBin b (estimateBinWidth bins) = l + estimateBinWidth bins / 2)"
  by (simp add: estimateBinWidth_median median_def midpointForBin_def)

theorem estimateBinWidth_positive_median_witness:
  "filter (\<lambda>w. w > 0) (closedWidths binsOfSpecExample) = [10000, 20000, 30000]
   \<and> estimateBinWidth binsOfSpecExample = 20000
   \<and> midpointForBin \<lparr>lower = None, upper = Some 0\<rparr> (estimateBinWidth binsOfSpecExample) = - 10000
   \<and> midpointForBin \<lparr>lower = Some 60000, upper = None\<rparr> (estimateBinWidth binsOfSpecExample) = 70000"
proof -
  have w: "filter (\<lambda>w. w > 0) (closedWidths binsOfSpecExample) = [10000, 20000, 30000]"
    by (simp add: binsOfSpecExample_def closedWidths_def closedWidth_def)
  note t1 = estimateBinWidth_positive_median
      [of binsOfSpecExample "\<lparr>lower = None, upper = Some 0\<rparr>" 0 60000]
  note t2 = estimateBinWidth_positive_median
      [of binsOfSpecExample "\<lparr>lower = Some 60000, upper = None\<rparr>" 0 60000]
  have e: "estimateBinWidth binsOfSpecExample = 20000"
    using t1[THEN conjunct2, THEN conjunct1] w by blast
  have m1: "midpointForBin \<lparr>lower = None, upper = Some 0\<rparr> (estimateBinWidth binsOfSpecExample)
              = 0 - estimateBinWidth binsOfSpecExample / 2"
    using t1[THEN conjunct2, THEN conjunct2, THEN conjunct1] by simp
  have m2: "midpointForBin \<lparr>lower = Some 60000, upper = None\<rparr> (estimateBinWidth binsOfSpecExample)
              = 60000 + estimateBinWidth binsOfSpecExample / 2"
    using t2[THEN conjunct2, THEN conjunct2, THEN conjunct2] by simp
  show ?thesis
    unfolding m1 m2 using w e by simp
qed

subsection \<open>Latest snapshot and history\<close>

lemma jsSort_descending:
  "jsSort (\<lambda>a b. Finite (f b - f a)) xs = sort_key (\<lambda>v. - f v) xs"
  for f :: "'a \<Rightarrow> real"
  using jsSort_numeric[of "\<lambda>v. - f v" xs] by simp

lemma timedSnapshots_set:
  "item \<in> set (timedSnapshots snapshots)
     \<longleftrightarrow> (\<exists>s t. item = (s, Some t) \<and> s \<in> set snapshots \<and> timeOf s = Some t)"
  by (auto simp: timedSnapshots_def isFinite_def)

lemma points_foldl_addPoint:
  "points (foldl (addPoint provider cutoff) acc items)
     = points acc
       @ map (\<lambda>item. \<lparr>pt_x = tsOf item, pt_y = coalesce (fst (seriesValue provider (fst item))) 0\<rparr>)
           (filter (\<lambda>item. \<not> tsOf item < cutoff \<and> fst (seriesValue provider (fst item)) \<noteq> None)
              items)"
proof (induction items arbitrary: acc)
  case Nil
  then show ?case by simp
next
  case (Cons item items)
  obtain v lo hi where sv: "seriesValue provider (fst item) = (v, lo, hi)"
    by (cases "seriesValue provider (fst item)") auto
  show ?case
    unfolding foldl_Cons Cons.IH
    by (cases v; cases lo; cases hi) (simp_all add: addPoint_def sv Let_def)
qed

lemma buildExpectationSeries_points:
  "map pt_x (points (buildExpectationSeries snapshots provider lookbackDays))
     = map tsOf (filter (\<lambda>item. \<not> tsOf item < tsOf (last (sort_key tsOf (timedSnapshots snapshots)))
                                        - lookbackDays * 24 * 60 * 60 * 1000
                            \<and> fst (seriesValue provider (fst item)) \<noteq> None)
                   (sort_key tsOf (timedSnapshots snapshots)))"
proof -
  have s: "jsSort (\<lambda>a b. Finite (tsOf a - tsOf b)) (timedSnapshots snapshots)
             = sort_key tsOf (timedSnapshots snapshots)"
    by (rule jsSort_numeric)
  show ?thesis
    unfolding buildExpectationSeries_def s Let_def
    by (simp add: points_foldl_addPoint comp_def del: not_None_eq)
qed

text \<open>
  Claim C9.  When at least one snapshot has a timestamp that parses, the snapshot picked
  as the latest is one of the snapshots, has a parsed timestamp, and no parsed timestamp
  is later; the points of the expectation series are in ascending order of timestamp;
  and every point comes from a snapshot whose timestamp parses.
\<close>

theorem latest_and_history_by_time:
  assumes "\<exists>s \<in> set snapshots. timeOf s \<noteq> None"
  shows "(\<exists>s t. pickLatestSnapshot snapshots = Some s \<and> s \<in> set snapshots \<and> timeOf s = Some t
            \<and> (\<forall>s' \<in> set snapshots. \<forall>t'. timeOf s' = Some t' \<longrightarrow> t' \<le> t))
       \<and> sorted (map pt_x (points (buildExpectationSeries snapshots provider lookbackDays)))
       \<and> (\<forall>pt \<in> set (points (buildExpectationSeries snapshots provider lookbackDays)).
             \<exists>s \<in> set snapshots. timeOf s = Some (pt_x pt))"
proof (intro conjI)
  let ?ts = "timedSnapshots snapshots"
  let ?sorted = "sort_key (\<lambda>v. - tsOf v) ?ts"
  from assms obtain s0 t0 where "s0 \<in> set snapshots" "timeOf s0 = Some t0" by auto
  then have "(s0, Some t0) \<in> set ?ts" by (auto simp: timedSnapshots_set)
  then have "?sorted \<noteq> []" by (metis empty_iff list.set(1) set_sort)
  then obtain item rest where sr: "?sorted = item # rest" by (cases ?sorted) auto
  have "item \<in> set ?ts" using sr by (metis list.set_intros(1) set_sort)
  then obtain s t where it: "item = (s, Some t)" "s \<in> set snapshots" "timeOf s = Some t"
    by (auto simp: timedSnapshots_set)
  have srt: "sorted (map (\<lambda>v. - tsOf v) ?sorted)" by (rule sorted_sort_key)
  have max: "t' \<le> t" if "s' \<in> set snapshots" "timeOf s' = Some t'" for s' t'
  proof -
    have "(s', Some t') \<in> set ?sorted" using that by (auto simp: timedSnapshots_set)
    then have "- tsOf item \<le> - tsOf (s', Some t')"
      using srt unfolding sr by auto
    then show ?thesis by (simp add: it tsOf_def)
  qed
  have "pickLatestSnapshot snapshots = Some s"
    unfolding pickLatestSnapshot_def jsSort_descending sr Let_def by (simp add: it)
  then show "\<exists>s t. pickLatestSnapshot snapshots = Some s \<and> s \<in> set snapshots \<and> timeOf s = Some t
            \<and> (\<forall>s' \<in> set snapshots. \<forall>t'. timeOf s' = Some t' \<longrightarrow> t' \<le> t)"
    using it max by blast
next
  show "sorted (map pt_x (points (buildExpectationSeries snapshots provider lookbackDays)))"
    unfolding buildExpectationSeries_points
    by (rule sorted_filter) (rule sorted_sort_key)
next
  show "\<forall>pt \<in> set (points (buildExpectationSeries snapshots provider lookbackDays)).
             \<exists>s \<in> set snapshots. timeOf s = Some (pt_x pt)"
  proof
    fix pt assume "pt \<in> set (points (buildExpectationSeries snapshots provider lookbackDays))"
    then have "pt_x pt \<in> set (map pt_x (points (buildExpectationSeries snapshots provider lookbackDays)))"
      by simp
    then obtain item where "item \<in> set (timedSnapshots snapshots)" "pt_x pt = tsOf item"
      unfolding buildExpectationSeries_points by auto
    then show "\<exists>s \<in> set snapshots. timeOf s = Some (pt_x pt)"
      by (auto simp: timedSnapshots_set tsOf_def)
  qed
qed

theorem latest_and_history_by_time_witness:
  "(\<exists>s \<in> set exampleHistory. timeOf s \<noteq> None)
   \<and> pickLatestSnapshot exampleHistory = Some (snapshotAt (Finite 200))
   \<and> map pt_x (points (buildExpectationSeries exampleHistory ''kalshi'' 7)) = [100, 200]
   \<and> sorted (map pt_x (points (buildExpectationSeries exampleHistory ''kalshi'' 7)))"
proof -
  have h: "\<exists>s \<in> set exampleHistory. timeOf s \<noteq> None"
    by (simp add: exampleHistory_def snapshotAt_def timeOf_def)
  have p: "pickLatestSnapshot exampleHistory = Some (snapshotAt (Finite 200))"
    by code_simp
  have v: "map pt_x (points (buildExpectationSeries exampleHistory ''kalshi'' 7)) = [100, 200]"
    by code_simp
  from latest_and_history_by_time [OF h, of "''kalshi''" 7]
  have "sorted (map pt_x (points (buildExpectationSeries exampleHistory ''kalshi'' 7)))"
    by blast
  with h p v show ?thesis by blast
qed

subsection \<open>Redistribution onto the canonical bins\<close>

lemma overlapOf_intersectionLength: "overlapOf a b = intersectionLength a b"
  by (simp add: overlapOf_def intersectionLength_def max_def)

lemma overlapOf_nonneg: "0 \<le> overlapOf a b"
  by (simp add: overlapOf_def)

lemma addToBin_pass:
  "length mid = length bs \<Longrightarrow>
   foldl (addToBin minB maxB step p src) (pre @ mid) (enumerate (length pre) bs)
     = pre @ map (\<lambda>(t, b). t + p * (overlapOf src (expandRange b minB maxB step)
                                        / (iupper src - ilower src))) (zip mid bs)"
proof (induction bs arbitrary: pre mid)
  case Nil
  then show ?case by simp
next
  case (Cons b bs)
  then obtain t mid' where mid: "mid = t # mid'" "length mid' = length bs"
    by (cases mid) auto
  let ?ov = "overlapOf src (expandRange b minB maxB step)"
  let ?t' = "t + p * (?ov / (iupper src - ilower src))"
  have step1: "addToBin minB maxB step p src (pre @ t # mid') (length pre, b) = pre @ ?t' # mid'"
  proof (cases "?ov > 0")
    case True
    then show ?thesis by (simp add: addToBin_def Let_def)
  next
    case False
    then have "?ov = 0" using overlapOf_nonneg[of src "expandRange b minB maxB step"] by simp
    then show ?thesis by (simp add: addToBin_def Let_def)
  qed
  have ih: "foldl (addToBin minB maxB step p src) (pre @ ?t' # mid')
          (enumerate (Suc (length pre)) bs)
      = pre @ ?t' # map (\<lambda>(t, b). t + p * (overlapOf src (expandRange b minB maxB step)
                                        / (iupper src - ilower src))) (zip mid' bs)"
    using Cons.IH[of mid' "pre @ [?t']"] mid(2) by simp
  show ?case
    unfolding mid(1) enumerate_simps foldl_Cons step1 ih by simp
qed

lemma addRange_pass:
  assumes "length totals = length bs"
  shows "addRange bs minB maxB step totals r
           = map (\<lambda>(t, b). t + rangeMass minB maxB step r b) (zip totals bs)"
proof (cases "prob r")
  case None
  then show ?thesis using assms
    by (simp add: addRange_def rangeMass_def Let_def map_idI split_def)
next
  case (Some p)
  let ?src = "expandRange r minB maxB step"
  show ?thesis
  proof (cases "p > 0 \<and> iupper ?src - ilower ?src > 0")
    case True
    have "foldl (addToBin minB maxB step p ?src) ([] @ totals) (enumerate (length ([]::real list)) bs)
        = [] @ map (\<lambda>(t, b). t + p * (overlapOf ?src (expandRange b minB maxB step)
                                        / (iupper ?src - ilower ?src))) (zip totals bs)"
      by (rule addToBin_pass) (simp add: assms)
    then show ?thesis using True Some
      by (simp add: addRange_def rangeMass_def Let_def overlapOf_intersectionLength)
  next
    case False
    then have "addRange bs minB maxB step totals r = totals"
      using Some by (auto simp: addRange_def Let_def)
    moreover have "map (\<lambda>(t, b). t + rangeMass minB maxB step r b) (zip totals bs) = map fst (zip totals bs)"
      using False Some by (auto simp: rangeMass_def Let_def)
    ultimately show ?thesis using assms by simp
  qed
qed

lemma addRange_all:
  assumes "length totals = length bs"
  shows "foldl (addRange bs minB maxB step) totals rs
           = map (\<lambda>(t, b). t + (\<Sum>r\<leftarrow>rs. rangeMass minB maxB step r b)) (zip totals bs)"
  using assms
proof (induction rs arbitrary: totals)
  case Nil
  then show ?case by (simp add: split_def)
next
  case (Cons r rs)
  let ?t1 = "addRange bs minB maxB step totals r"
  have t1: "?t1 = map (\<lambda>(t, b). t + rangeMass minB maxB step r b) (zip totals bs)"
    by (rule addRange_pass[OF Cons.prems])
  then have len: "length ?t1 = length bs" using Cons.prems by simp
  have "foldl (addRange bs minB maxB step) ?t1 rs
      = map (\<lambda>(t, b). t + (\<Sum>r\<leftarrow>rs. rangeMass minB maxB step r b)) (zip ?t1 bs)"
    by (rule Cons.IH[OF len])
  also have "\<dots> = map (\<lambda>(t, b). t + (\<Sum>r\<leftarrow>r # rs. rangeMass minB maxB step r b)) (zip totals bs)"
    unfolding t1 using Cons.prems
    by (intro nth_equalityI) (simp_all add: algebra_simps)
  finally show ?case by simp
qed

lemma totals_from_zero:
  "foldl (addRange bs minB maxB step) (map (\<lambda>_. 0) bs) rs
     = map (\<lambda>b. \<Sum>r\<leftarrow>rs. rangeMass minB maxB step r b) bs"
proof -
  have "foldl (addRange bs minB maxB step) (map (\<lambda>_. 0) bs) rs
      = map (\<lambda>(t, b). t + (\<Sum>r\<leftarrow>rs. rangeMass minB maxB step r b)) (zip (map (\<lambda>_. 0) bs) bs)"
    by (rule addRange_all) simp
  also have "\<dots> = map (\<lambda>b. \<Sum>r\<leftarrow>rs. rangeMass minB maxB step r b) bs"
    by (intro nth_equalityI) simp_all
  finally show ?thesis .
qed



lemma sum_list_divide: "sum_list (map (\<lambda>v. v / c) vs) = sum_list vs / (c::real)"
  by (induction vs) (simp_all add: add_divide_distrib)

lemma aggregate_closed_form:
  "aggregateRangesToStandard ranges standardBins m =
     (let clean = normalizeDistribution ranges;
          masses = map (\<lambda>b. \<Sum>r\<leftarrow>clean. gridMass standardBins m r b) standardBins;
          totalProb = sum_list masses
      in if standardBins = [] \<or> clean = [] then []
         else if totalProb > 0 then map (\<lambda>v. v / totalProb) masses else masses)"
  unfolding aggregateRangesToStandard_def Let_def totals_from_zero gridMass_def
  using foldl_add_sum[of "\<lambda>v. v" 0] by simp

text \<open>
  Claim C2.  \<open>aggregateRangesToStandard\<close> gives every canonical bin the sum, over the
  venue's normalized ranges, of the mass \<open>gridMass\<close> each range sends to the bin, divided
  by the total of these sums when that total is positive; a range with positive
  probability and positive width sends to a bin its probability times the length of its
  overlap with the bin divided by its own length (open ends taken at the bounds
  \<open>expandRange\<close> gives them), and this is what one pass of \<open>addRange\<close> adds to every
  running total.
\<close>

theorem proportional_overlap_mass:
  assumes "prob r = Some p" and "0 < p"
    and "minB = minBoundOf standardBins" and "step = stepForMeta m"
    and "maxB = maxBoundOf standardBins minB step"
    and "0 < iupper (expandRange r minB maxB step) - ilower (expandRange r minB maxB step)"
  shows "gridMass standardBins m r b
           = p * (intersectionLength (expandRange r minB maxB step) (expandRange b minB maxB step)
                  / (iupper (expandRange r minB maxB step) - ilower (expandRange r minB maxB step)))
       \<and> aggregateRangesToStandard ranges standardBins m
           = (let clean = normalizeDistribution ranges;
                  masses = map (\<lambda>c. \<Sum>q\<leftarrow>clean. gridMass standardBins m q c) standardBins;
                  totalProb = sum_list masses
              in if standardBins = [] \<or> clean = [] then []
                 else if totalProb > 0 then map (\<lambda>v. v / totalProb) masses else masses)
       \<and> (length totals = length standardBins
            \<longrightarrow> addRange standardBins minB maxB step totals r
                = map (\<lambda>(t, c). t + gridMass standardBins m r c) (zip totals standardBins))"
proof (intro conjI impI)
  show "gridMass standardBins m r b
           = p * (intersectionLength (expandRange r minB maxB step) (expandRange b minB maxB step)
                  / (iupper (expandRange r minB maxB step) - ilower (expandRange r minB maxB step)))"
    using assms by (simp add: gridMass_def rangeMass_def Let_def)
next
  show "aggregateRangesToStandard ranges standardBins m
           = (let clean = normalizeDistribution ranges;
                  masses = map (\<lambda>c. \<Sum>q\<leftarrow>clean. gridMass standardBins m q c) standardBins;
                  totalProb = sum_list masses
              in if standardBins = [] \<or> clean = [] then []
                 else if totalProb > 0 then map (\<lambda>v. v / totalProb) masses else masses)"
    by (rule aggregate_closed_form)
next
  assume "length totals = length standardBins"
  then show "addRange standardBins minB maxB step totals r
                = map (\<lambda>(t, c). t + gridMass standardBins m r c) (zip totals standardBins)"
    using assms(3-5) by (simp add: addRange_pass gridMass_def)
qed

theorem proportional_overlap_mass_witness:
  "prob (normalizeDistribution threeBrackets ! 1) = Some (1 / 2)
   \<and> (50000::real) = minBoundOf threeBracketsGrid \<and> (25000::real) = stepForMeta jobsMeta
   \<and> (100000::real) = maxBoundOf threeBracketsGrid 50000 25000
   \<and> gridMass threeBracketsGrid jobsMeta (normalizeDistribution threeBrackets ! 1)
         (threeBracketsGrid ! 1) = 1 / 4
   \<and> aggregateRangesToStandard threeBrackets threeBracketsGrid jobsMeta
        = [1 / 5, 1 / 4, 1 / 4, 3 / 10]"
proof -
  let ?r = "normalizeDistribution threeBrackets ! 1"
  let ?b = "threeBracketsGrid ! 1"
  have h1: "prob ?r = Some (1 / 2)" by code_simp
  have h2: "(0::real) < 1 / 2" by simp
  have h3: "(50000::real) = minBoundOf threeBracketsGrid" by code_simp
  have h4: "(25000::real) = stepForMeta jobsMeta" by code_simp
  have h5: "(100000::real) = maxBoundOf threeBracketsGrid 50000 25000" by code_simp
  have h6: "0 < iupper (expandRange ?r 50000 100000 25000) - ilower (expandRange ?r 50000 100000 25000)"
    by code_simp
  have v1: "(1 / 2) * (intersectionLength (expandRange ?r 50000 100000 25000)
                        (expandRange ?b 50000 100000 25000)
                    / (iupper (expandRange ?r 50000 100000 25000)
                         - ilower (expandRange ?r 50000 100000 25000))) = 1 / 4"
    by code_simp
  have v2: "(let clean = normalizeDistribution threeBrackets;
                  masses = map (\<lambda>c. \<Sum>q\<leftarrow>clean. gridMass threeBracketsGrid jobsMeta q c)
                             threeBracketsGrid;
                  totalProb = sum_list masses
              in if threeBracketsGrid = [] \<or> clean = [] then []
                 else if totalProb > 0 then map (\<lambda>v. v / totalProb) masses else masses)
            = [1 / 5, 1 / 4, 1 / 4, 3 / 10]"
    by code_simp
  note t = proportional_overlap_mass [OF h1 h2 h3 h4 h5 h6, of ?b threeBrackets "[]"]
  have a: "gridMass threeBracketsGrid jobsMeta ?r ?b = 1 / 4"
    using t[THEN conjunct1] v1 by simp
  have b: "aggregateRangesToStandard threeBrackets threeBracketsGrid jobsMeta
        = [1 / 5, 1 / 4, 1 / 4, 3 / 10]"
    using t[THEN conjunct2, THEN conjunct1] v2 by simp
  from h1 h3 h4 h5 a b show ?thesis by blast
qed




subsection \<open>Snapshots without usable probabilities\<close>









subsection \<open>The single-venue fallback\<close>

lemma set_jsInsert: "set (jsInsert cmp v ys) = insert v (set ys)"
  by (induction ys) auto

lemma set_jsSort: "set (jsSort cmp xs) = set xs"
  by (induction xs) (simp_all add: jsSort_def set_jsInsert)

lemma jsInsert_map:
  assumes "\<And>a b. cmp' (g a) (g b) = cmp a b"
  shows "jsInsert cmp' (g v) (map g ys) = map g (jsInsert cmp v ys)"
  by (induction ys) (simp_all add: assms)

lemma jsSort_map:
  assumes "\<And>a b. cmp' (g a) (g b) = cmp a b"
  shows "jsSort cmp' (map g xs) = map g (jsSort cmp xs)"
  by (induction xs) (simp_all add: jsSort_def jsInsert_map[of cmp' g cmp, OF assms])

lemma mapGet_absent: "k \<notin> fst ` set m \<Longrightarrow> mapGet k m = None"
  by (simp add: mapGet_def map_of_eq_None_iff)

lemma mapSet_absent: "k \<notin> fst ` set m \<Longrightarrow> mapSet k v m = m @ [(k, v)]"
  by (induction m) auto

lemma ingest_fresh:
  assumes "distinct (map rangeKey rs)" and "rangeKey ` set rs \<inter> fst ` set m = {}"
  shows "foldl (ingestRange src) m rs = m @ map (mergedOf src) rs"
  using assms
proof (induction rs arbitrary: m)
  case Nil
  then show ?case by simp
next
  case (Cons r rs)
  have fresh: "rangeKey r \<notin> fst ` set m" using Cons.prems(2) by auto
  have step: "ingestRange src m r = m @ [mergedOf src r]"
    by (cases src) (simp_all add: ingestRange_def Let_def mapGet_absent[OF fresh] mapSet_absent[OF fresh] mergedOf_def)
  have "foldl (ingestRange src) (m @ [mergedOf src r]) rs = (m @ [mergedOf src r]) @ map (mergedOf src) rs"
  proof (rule Cons.IH)
    show "distinct (map rangeKey rs)" using Cons.prems(1) by simp
    show "rangeKey ` set rs \<inter> fst ` set (m @ [mergedOf src r]) = {}"
      using Cons.prems by (auto simp: mergedOf_def)
  qed
  then show ?case by (simp add: step)
qed

lemma normalized_prob_some:
  "r \<in> set (normalizeDistribution rs) \<Longrightarrow> \<exists>p. prob r = Some p"
  unfolding normalizeDistribution_closed_form Let_def by auto

lemma normalized_total:
  assumes "0 < (\<Sum>r\<leftarrow>normalizeDistribution rs. coalesce (prob r) 0)"
  shows "(\<Sum>r\<leftarrow>normalizeDistribution rs. coalesce (prob r) 0) = 1"
proof -
  let ?kept = "filter (\<lambda>r. toNumber (raw_prob r) \<noteq> None) rs"
  let ?t = "sum_list (map rawProbValue ?kept)"
  have eq: "(\<Sum>r\<leftarrow>normalizeDistribution rs. coalesce (prob r) 0)
          = (\<Sum>r\<leftarrow>?kept. if ?t > 0 then rawProbValue r / ?t else rawProbValue r)"
    unfolding normalizeDistribution_closed_form Let_def by (simp add: comp_def)
  show ?thesis
  proof (cases "?t > 0")
    case True
    have "(\<Sum>r\<leftarrow>?kept. rawProbValue r / ?t) = sum_list (map (\<lambda>v. v / ?t) (map rawProbValue ?kept))"
      by (simp add: comp_def)
    also have "\<dots> = ?t / ?t" by (rule sum_list_divide)
    finally show ?thesis using True eq by simp
  next
    case False
    then show ?thesis using assms eq by simp
  qed
qed

lemma withCombinedRaw_single:
  assumes "prob r = Some p"
  shows "withCombinedRaw (snd (mergedOf src r))
           = \<lparr>lower = lower r, upper = upper r,
              kalshi_prob = (case src of Kalshi \<Rightarrow> Some p | Polymarket \<Rightarrow> None),
              polymarket_prob = (case src of Kalshi \<Rightarrow> None | Polymarket \<Rightarrow> Some p),
              combinedRaw = Some p\<rparr>"
  using assms by (cases src) (simp_all add: withCombinedRaw_def mergedOf_def isFinite_def Let_def)

lemma sortRanges_bounds:
  "lower a' = lower a \<Longrightarrow> upper a' = upper a \<Longrightarrow> lower b' = lower b \<Longrightarrow> upper b' = upper b
     \<Longrightarrow> sortRanges a' b' = sortRanges a b"
  by (simp add: sortRanges_def Let_def)

lemma single_venue_combined:
  assumes vs: "vs = normalizeDistribution rs"
    and dist: "distinct (map rangeKey vs)"
  shows "map (\<lambda>e. (lower e, upper e, Some (combined e)))
             (finishCombine (map (mergedOf src) vs))
           = map (\<lambda>r. (lower r, upper r,
                         Some (if 0 < (\<Sum>q\<leftarrow>vs. coalesce (prob q) 0)
                               then coalesce (prob r) 0 / (\<Sum>q\<leftarrow>vs. coalesce (prob q) 0)
                               else 0)))
               (jsSort sortRanges vs)"
proof -
  let ?T = "\<Sum>r\<leftarrow>vs. coalesce (prob r) 0"
  let ?g = "\<lambda>r. withCombined ?T (withCombinedRaw (snd (mergedOf src r)))"
  have some: "\<exists>p. prob r = Some p" if "r \<in> set vs" for r
    using that normalized_prob_some vs by blast
  have raw: "combinedRaw (withCombinedRaw (snd (mergedOf src r))) = prob r" if "r \<in> set vs" for r
    using some[OF that] by (auto simp: withCombinedRaw_single)
  have total: "foldl (\<lambda>acc e. acc + coalesce (combinedRaw e) 0) 0
                 (map withCombinedRaw (map snd (map (mergedOf src) vs))) = ?T"
    unfolding foldl_add_sum map_map
    by (simp add: comp_def raw cong: map_cong)
  have fin: "finishCombine (map (mergedOf src) vs) = jsSort sortRanges (map ?g vs)"
    unfolding finishCombine_def Let_def total by (simp add: comp_def)
  have bnd: "lower (?g r) = lower r \<and> upper (?g r) = upper r" for r
    by (cases src) (simp_all add: withCombined_def withCombinedRaw_def mergedOf_def Let_def)
  have srt: "jsSort sortRanges (map ?g vs) = map ?g (jsSort sortRanges vs)"
    by (rule jsSort_map) (rule sortRanges_bounds; simp add: bnd)
  have comb: "combined (?g r) = (if 0 < ?T then coalesce (prob r) 0 / ?T else 0)"
    if r: "r \<in> set vs" for r
  proof -
    obtain p where p: "prob r = Some p" using some[OF r] by blast
    show ?thesis using p by (simp add: withCombined_def withCombinedRaw_single)
  qed
  have "map (\<lambda>e. (lower e, upper e, Some (combined e))) (map ?g (jsSort sortRanges vs))
      = map (\<lambda>r. (lower r, upper r, Some (if 0 < ?T then coalesce (prob r) 0 / ?T else 0)))
          (jsSort sortRanges vs)"
    unfolding map_map
    by (rule map_cong[OF refl]) (simp add: set_jsSort bnd comb)
  then show ?thesis unfolding fin srt .
qed

lemma share_is_probability:
  assumes vs: "vs = normalizeDistribution rs"
    and nonneg: "\<forall>r \<in> set vs. 0 \<le> coalesce (prob r) 0"
    and r: "r \<in> set vs"
  shows "Some (if 0 < (\<Sum>q\<leftarrow>vs. coalesce (prob q) 0)
               then coalesce (prob r) 0 / (\<Sum>q\<leftarrow>vs. coalesce (prob q) 0) else 0) = prob r"
proof -
  let ?T = "\<Sum>r\<leftarrow>vs. coalesce (prob r) 0"
  obtain p where p: "prob r = Some p" using r normalized_prob_some vs by blast
  show ?thesis
  proof (cases "0 < ?T")
    case True
    then have "?T = 1" using normalized_total[of rs] vs by simp
    then show ?thesis using p by simp
  next
    case False
    have "\<forall>v \<in> set (map (\<lambda>r. coalesce (prob r) 0) vs). 0 \<le> v" using nonneg by auto
    then have "\<forall>v \<in> set (map (\<lambda>r. coalesce (prob r) 0) vs). v = 0"
      using False sum_list_nonneg_eq_0_iff[of "map (\<lambda>r. coalesce (prob r) 0) vs"]
        sum_list_nonneg[of "map (\<lambda>r. coalesce (prob r) 0) vs"]
      by (metis less_eq_real_def)
    then have "p = 0" using r p by force
    then show ?thesis using False p by simp
  qed
qed

text \<open>
  Claim C6, as stated.  In \<open>duplicateBracketsSnapshot\<close> there is no precomputed
  posterior and only the first venue reports; its normalized probabilities are 0.4 and
  0.6, over the same bounds.  \<open>combineDistributions\<close> keys its entries by bounds, so the
  second bracket replaces the first, and the posterior has a single bin with mean 1.
\<close>

theorem duplicate_brackets_counterexample:
  "getPosterior duplicateBracketsSnapshot = None
   \<and> normalizeDistribution (polymarket (snap_sources duplicateBracketsSnapshot)) = []
   \<and> others (snap_sources duplicateBracketsSnapshot) = []
   \<and> map prob (normalizeDistribution (kalshi (snap_sources duplicateBracketsSnapshot)))
        = [Some (2 / 5), Some (3 / 5)]
   \<and> map binSummary (getPosteriorBins duplicateBracketsSnapshot
                         (getBinsFromSources (snap_sources duplicateBracketsSnapshot)))
        = [(Some 0, Some 10, Some 1, None, None)]"
  by code_simp

text \<open>
  Claim C6, amended.  For a snapshot without a usable precomputed posterior in which
  exactly one of the two venues has normalized ranges, the ranges having pairwise
  distinct bounds, the posterior bins are the venue's normalized ranges in the order of
  \<open>sortRanges\<close>: each bin has the bounds of its range, p10 and p90 are null, and its mean
  is the range's normalized probability divided by the sum of the venue's normalized
  probabilities, or 0 when that sum is not positive.  When no probability is negative
  this mean is, over the reals, the normalized probability itself.
\<close>

theorem single_venue_fallback:
  assumes "getPosterior snap = None"
    and "vs = normalizeDistribution (kalshi (snap_sources snap))
           \<and> normalizeDistribution (polymarket (snap_sources snap)) = []
         \<or> vs = normalizeDistribution (polymarket (snap_sources snap))
           \<and> normalizeDistribution (kalshi (snap_sources snap)) = []"
    and "distinct (map rangeKey vs)"
  shows "map binSummary (getPosteriorBins snap bins)
           = map (\<lambda>r. (lower r, upper r,
                         Some (if 0 < (\<Sum>q\<leftarrow>vs. coalesce (prob q) 0)
                               then coalesce (prob r) 0 / (\<Sum>q\<leftarrow>vs. coalesce (prob q) 0)
                               else 0),
                         None, None))
               (jsSort sortRanges vs)
       \<and> ((\<forall>r \<in> set vs. 0 \<le> coalesce (prob r) 0)
            \<longrightarrow> map binSummary (getPosteriorBins snap bins)
                = map rangeSummary (jsSort sortRanges vs))"
proof -
  let ?T = "\<Sum>q\<leftarrow>vs. coalesce (prob q) 0"
  let ?share = "\<lambda>r. Some (if 0 < ?T then coalesce (prob r) 0 / ?T else 0)"
  obtain src rs where c: "combineDistributions (snap_sources snap) = finishCombine (map (mergedOf src) vs)"
    and v: "vs = normalizeDistribution rs"
  proof -
    from assms(2) show ?thesis
    proof
      assume a: "vs = normalizeDistribution (kalshi (snap_sources snap))
           \<and> normalizeDistribution (polymarket (snap_sources snap)) = []"
      have "foldl (ingestRange Kalshi) [] vs = [] @ map (mergedOf Kalshi) vs"
        by (rule ingest_fresh) (simp_all add: assms(3))
      then have "combineDistributions (snap_sources snap) = finishCombine (map (mergedOf Kalshi) vs)"
        using a by (simp add: combineDistributions_def Let_def)
      then show ?thesis using a that by blast
    next
      assume a: "vs = normalizeDistribution (polymarket (snap_sources snap))
           \<and> normalizeDistribution (kalshi (snap_sources snap)) = []"
      have "foldl (ingestRange Polymarket) [] vs = [] @ map (mergedOf Polymarket) vs"
        by (rule ingest_fresh) (simp_all add: assms(3))
      then have "combineDistributions (snap_sources snap) = finishCombine (map (mergedOf Polymarket) vs)"
        using a by (simp add: combineDistributions_def Let_def)
      then show ?thesis using a that by blast
    qed
  qed
  have "map (\<lambda>e. (lower e, upper e, Some (combined e))) (finishCombine (map (mergedOf src) vs))
           = map (\<lambda>r. (lower r, upper r, ?share r)) (jsSort sortRanges vs)"
    by (rule single_venue_combined[OF v assms(3)])
  then have "map (\<lambda>e. (lower e, upper e, Some (combined e), None::real option, None::real option))
               (finishCombine (map (mergedOf src) vs))
           = map (\<lambda>r. (lower r, upper r, ?share r, None, None)) (jsSort sortRanges vs)"
    by (auto simp: list_eq_iff_nth_eq)
  then have first: "map binSummary (getPosteriorBins snap bins)
           = map (\<lambda>r. (lower r, upper r, ?share r, None, None)) (jsSort sortRanges vs)"
    by (simp add: getPosteriorBins_def assms(1) c Let_def binSummary_def comp_def)
  have second: "map (\<lambda>r. (lower r, upper r, ?share r, None, None)) (jsSort sortRanges vs)
                  = map rangeSummary (jsSort sortRanges vs)"
    if nonneg: "\<forall>r \<in> set vs. 0 \<le> coalesce (prob r) 0"
    by (rule map_cong[OF refl])
       (simp add: set_jsSort rangeSummary_def share_is_probability[OF v nonneg])
  from first second show ?thesis by simp
qed

theorem single_venue_fallback_witness:
  "getPosterior (snapshotAt (Finite 200)) = None
   \<and> normalizeDistribution (polymarket (snap_sources (snapshotAt (Finite 200)))) = []
   \<and> distinct (map rangeKey (normalizeDistribution (kalshi (snap_sources (snapshotAt (Finite 200))))))
   \<and> list_all (\<lambda>r. 0 \<le> coalesce (prob r) 0)
         (normalizeDistribution (kalshi (snap_sources (snapshotAt (Finite 200)))))
   \<and> map binSummary (getPosteriorBins (snapshotAt (Finite 200))
                         (getBinsFromSources (snap_sources (snapshotAt (Finite 200)))))
        = [(None, Some 50000, Some (2 / 5), None, None),
           (Some 50000, None, Some (3 / 5), None, None)]"
proof -
  let ?snap = "snapshotAt (Finite 200)"
  let ?vs = "normalizeDistribution (kalshi (snap_sources ?snap))"
  have h1: "getPosterior ?snap = None" by code_simp
  have h2a: "normalizeDistribution (polymarket (snap_sources ?snap)) = []" by code_simp
  have h2: "?vs = normalizeDistribution (kalshi (snap_sources ?snap))
           \<and> normalizeDistribution (polymarket (snap_sources ?snap)) = []
         \<or> ?vs = normalizeDistribution (polymarket (snap_sources ?snap))
           \<and> normalizeDistribution (kalshi (snap_sources ?snap)) = []"
    using h2a by simp
  have h3: "distinct (map rangeKey ?vs)" by code_simp
  have h4: "\<forall>r \<in> set ?vs. 0 \<le> coalesce (prob r) 0" by code_simp
  have v: "map rangeSummary (jsSort sortRanges ?vs)
             = [(None, Some 50000, Some (2 / 5), None, None),
                (Some 50000, None, Some (3 / 5), None, None)]"
    by code_simp
  from single_venue_fallback [OF h1 h2 h3] h4
  have "map binSummary (getPosteriorBins ?snap (getBinsFromSources (snap_sources ?snap)))
          = map rangeSummary (jsSort sortRanges ?vs)"
    by blast
  with v h1 h2a h3 h4 show ?thesis by (simp add: list_all_iff)
qed

text \<open>
  The last equality is one of real numbers.  In double arithmetic the quotes 0.1 and 0.3
  normalize to 0.25 and a number just below 0.75; their sum is just below 1, and dividing
  by it again gives a number just above 0.25, and 0.75.
\<close>

lemma renormalization_in_doubles:
  "(let q1 = roundDouble (1 / 10); q2 = roundDouble (3 / 10);
        total = jsPlus (jsPlus 0 q1) q2;
        n1 = jsDivide q1 total; n2 = jsDivide q2 total;
        combinedTotal = jsPlus (jsPlus 0 n1) n2
    in n1 = 1 / 4 \<and> n2 < 3 / 4 \<and> combinedTotal < 1
       \<and> jsDivide n1 combinedTotal > n1 \<and> jsDivide n2 combinedTotal = 3 / 4)"
  by code_simp

subsection \<open>Running the normalizer on an aligned venue\<close>

lemma percentGrid_built:
  "buildStandardBins (getBinsFromSources percentSources) percentMeta = Some percentGrid"
  by code_simp

text \<open>The last closed bin of that grid starts below the bound of the open bin and ends
  above it: the two bins overlap.\<close>

lemma percentGrid_overlap:
  "length percentGrid = 5
   \<and> lower (percentGrid ! 4) = Some (roundDouble (42 / 10))
   \<and> coalesce (lower (percentGrid ! 3)) 0 < coalesce (lower (percentGrid ! 4)) 0
   \<and> coalesce (lower (percentGrid ! 4)) 0 < coalesce (upper (percentGrid ! 3)) 0"
  by code_simp

lemma evenPercentBrackets_aligned:
  "alignedTo evenPercentBrackets percentGrid
   \<and> map prob (normalizeDistribution evenPercentBrackets)
        = [Some (1 / 5), Some (1 / 5), Some (1 / 5), Some (1 / 5), Some (1 / 5)]"
  by code_simp

lemma evenPercentBrackets_aggregate:
  "aggregateRangesToStandard evenPercentBrackets percentGrid percentMeta
     = [811296384146058913140544016238 / 5273426496949373196379341916903,
        811296384146058913140544016238 / 5273426496949373196379341916903,
        811296384146058913140544016238 / 5273426496949373196379341916903,
        1216944576219085836436025628462 / 5273426496949373196379341916903,
        1622592768292110620521684239727 / 5273426496949373196379341916903]"
  by code_simp

text \<open>On the grid of a jobs event, whose bounds are whole multiples of the step, the
  venue aligned to the grid gets its own probabilities back.\<close>

lemma jobs_grid_renormalization:
  "buildStandardBins (getBinsFromSources oneVenueReporting) jobsMeta = Some threeBracketsGrid
   \<and> alignedTo gridBrackets threeBracketsGrid
   \<and> map prob (normalizeDistribution gridBrackets)
        = [Some (1 / 5), Some (1 / 4), Some (1 / 4), Some (3 / 10)]
   \<and> aggregateRangesToStandard gridBrackets threeBracketsGrid jobsMeta
        = [1 / 5, 1 / 4, 1 / 4, 3 / 10]"
  by code_simp

text \<open>
  Claim C7.  Running the normalizer on a venue that is already aligned to the canonical
  grid is not always a no-op.  For the percent event \<open>percentSources\<close> the canonical grid
  is \<open>percentGrid\<close>; the venue \<open>evenPercentBrackets\<close> has one bracket per bin of that
  grid, with the bin's bounds and the probability 0.2, and its normalized probabilities
  are 0.2 each; \<open>aggregateRangesToStandard\<close> returns about 0.154 for each of the first
  three bins, 0.231 for the fourth and 0.308 for the open bin above.
\<close>

theorem percent_grid_renormalization_diverges:
  "buildStandardBins (getBinsFromSources percentSources) percentMeta = Some percentGrid
   \<and> alignedTo evenPercentBrackets percentGrid
   \<and> map prob (normalizeDistribution evenPercentBrackets)
        = [Some (1 / 5), Some (1 / 5), Some (1 / 5), Some (1 / 5), Some (1 / 5)]
   \<and> aggregateRangesToStandard evenPercentBrackets percentGrid percentMeta
        \<noteq> map (\<lambda>r. coalesce (prob r) 0) (normalizeDistribution evenPercentBrackets)
   \<and> aggregateRangesToStandard evenPercentBrackets percentGrid percentMeta ! 0 < 4 / 25
   \<and> aggregateRangesToStandard evenPercentBrackets percentGrid percentMeta ! 1 < 4 / 25
   \<and> aggregateRangesToStandard evenPercentBrackets percentGrid percentMeta ! 2 < 4 / 25
   \<and> 23 / 100 < aggregateRangesToStandard evenPercentBrackets percentGrid percentMeta ! 3
   \<and> 3 / 10 < aggregateRangesToStandard evenPercentBrackets percentGrid percentMeta ! 4"
proof -
  have p: "map (\<lambda>r. coalesce (prob r) 0) (normalizeDistribution evenPercentBrackets)
             = map (\<lambda>v. coalesce v 0) (map prob (normalizeDistribution evenPercentBrackets))"
    by (simp add: comp_def)
  show ?thesis
    unfolding p evenPercentBrackets_aggregate
    using percentGrid_built evenPercentBrackets_aligned by simp
qed

end
